theory Spec2Isabelle
  imports Complex_Main "HOL-Library.AList"
begin

section \<open>Values\<close>

text \<open>
  Exceptions of the Python code are values: a function that can raise returns
  \<open>py_error + 'a\<close>, with \<open>Inl\<close> for the exception.
\<close>

datatype py_error =
    ValueError string
  | KeyError string
  | AttributeError string
  | ConnectionError string
  | OSError string
  | TypeError string
  | RetryError py_error

text \<open>
  A float64 cell.  The transformer and the quality checks only compare prices, so a
  finite float is modelled by the rational it denotes; NaN and the infinities are kept
  apart because every comparison with NaN is false.
\<close>

datatype f64 = NaN | NegInf | Fin rat | PosInf

fun f64_le :: "f64 \<Rightarrow> f64 \<Rightarrow> bool" where
  "f64_le NaN y = False"
| "f64_le x NaN = False"
| "f64_le NegInf y = True"
| "f64_le x PosInf = True"
| "f64_le (Fin a) (Fin b) = (a \<le> b)"
| "f64_le x y = False"

fun f64_lt :: "f64 \<Rightarrow> f64 \<Rightarrow> bool" where
  "f64_lt NaN y = False"
| "f64_lt x NaN = False"
| "f64_lt PosInf y = False"
| "f64_lt x NegInf = False"
| "f64_lt (Fin a) (Fin b) = (a < b)"
| "f64_lt x y = True"

definition f64_ge :: "f64 \<Rightarrow> f64 \<Rightarrow> bool" where
  "f64_ge x y = f64_le y x"

text \<open>\<open>datetime.time\<close>: compared as the tuple (hour, minute, second, microsecond).\<close>

record pytime =
  hour :: nat
  minute :: nat
  second :: nat
  microsecond :: nat

definition time_le :: "pytime \<Rightarrow> pytime \<Rightarrow> bool" where
  "time_le a b =
     (hour a < hour b \<or> (hour a = hour b \<and>
       (minute a < minute b \<or> (minute a = minute b \<and>
         (second a < second b \<or> (second a = second b \<and>
           microsecond a \<le> microsecond b))))))"

definition time_lt :: "pytime \<Rightarrow> pytime \<Rightarrow> bool" where
  "time_lt a b = (time_le a b \<and> a \<noteq> b)"

definition mk_time :: "nat \<Rightarrow> nat \<Rightarrow> pytime" where
  "mk_time h m = \<lparr>hour = h, minute = m, second = 0, microsecond = 0\<rparr>"

record pydate =
  year :: nat
  month :: nat
  day :: nat

text \<open>A timestamp: a calendar date and the local time of day (\<open>.dt.time\<close>).\<close>

record pydatetime =
  dt_date :: pydate
  dt_time :: pytime

text \<open>
  A cell of a raw candle dictionary: a value, a null (\<open>None\<close>, NaN, NaT), or
  something the pandas parser cannot read.
\<close>

datatype 'a cell = Null | Unparseable string | Val 'a

section \<open>EquityTransformer\<close>

text \<open>
  One row of the data frame, with the column types as parameters: \<open>'t\<close> the
  timestamp column, \<open>'p\<close> the four price columns, \<open>'v\<close> the volume column.
  The field \<open>timestamp\<close> is the column after \<open>_rename_columns\<close>, which maps
  the key \<open>date\<close> to \<open>timestamp\<close> and leaves every other key alone.  The rows
  carry the keys that the extractor produces; the column \<open>open\<close> is the field
  \<open>open_price\<close>.
\<close>

record ('t, 'p, 'v) candle =
  timestamp :: 't
  open_price :: 'p
  high :: 'p
  low :: 'p
  close :: 'p
  volume :: 'v
  tradingsymbol :: "string option"
  instrument_token :: "int option"
  exchange :: "string option"
  trade_date :: "pydatetime option"

type_synonym raw_candle = "(pydatetime cell, f64 cell, int cell) candle"
type_synonym row = "(pydatetime option, f64, int) candle"

definition MARKET_OPEN :: "nat \<times> nat" where
  "MARKET_OPEN = (9, 15)"

definition MARKET_CLOSE :: "nat \<times> nat" where
  "MARKET_CLOSE = (15, 30)"

text \<open>\<open>pd.to_datetime\<close> on one cell: a null becomes NaT, an unreadable value raises.\<close>

fun to_datetime :: "pydatetime cell \<Rightarrow> py_error + pydatetime option" where
  "to_datetime Null = Inr None"
| "to_datetime (Unparseable s) = Inl (ValueError s)"
| "to_datetime (Val t) = Inr (Some t)"

text \<open>\<open>pd.to_numeric(errors="coerce")\<close> on one cell: what cannot be read is NaN.\<close>

fun to_numeric :: "f64 cell \<Rightarrow> f64" where
  "to_numeric Null = NaN"
| "to_numeric (Unparseable s) = NaN"
| "to_numeric (Val x) = x"

text \<open>
  The volume column: \<open>to_numeric\<close> with coercion, then \<open>fillna(0).astype("int64")\<close>.
  Volumes are the integers the data source delivers.
\<close>

fun volume_int64 :: "int cell \<Rightarrow> int" where
  "volume_int64 Null = 0"
| "volume_int64 (Unparseable s) = 0"
| "volume_int64 (Val v) = v"

definition convert_row :: "pydatetime option \<Rightarrow> raw_candle \<Rightarrow> row" where
  "convert_row t c =
     \<lparr>timestamp = t,
      open_price = to_numeric (open_price c), high = to_numeric (high c),
      low = to_numeric (low c), close = to_numeric (close c),
      volume = volume_int64 (volume c),
      tradingsymbol = tradingsymbol c, instrument_token = instrument_token c,
      exchange = exchange c, trade_date = trade_date c\<rparr>"

text \<open>
  \<open>_convert_dtypes\<close>: the timestamp column is converted first, and one unreadable
  timestamp makes the whole conversion raise.
\<close>

fun convert_dtypes :: "raw_candle list \<Rightarrow> py_error + row list" where
  "convert_dtypes [] = Inr []"
| "convert_dtypes (c # cs) =
     (case to_datetime (timestamp c) of
        Inl e \<Rightarrow> Inl e
      | Inr t \<Rightarrow>
          (case convert_dtypes cs of
             Inl e \<Rightarrow> Inl e
           | Inr rs \<Rightarrow> Inr (convert_row t c # rs)))"

text \<open>\<open>_validate_timestamps\<close>: \<open>dropna(subset=["timestamp"])\<close>.\<close>

definition validate_timestamps :: "row list \<Rightarrow> row list" where
  "validate_timestamps frame = filter (\<lambda>r. timestamp r \<noteq> None) frame"

text \<open>
  \<open>duplicated(keep="last")\<close> marks every occurrence of a key but the last one;
  \<open>drop_duplicates\<close> keeps the rows that are not marked.
\<close>

fun duplicated_last :: "'k list \<Rightarrow> bool list" where
  "duplicated_last [] = []"
| "duplicated_last (k # ks) = (k \<in> set ks) # duplicated_last ks"

definition drop_duplicates_last :: "('a \<Rightarrow> 'k) \<Rightarrow> 'a list \<Rightarrow> 'a list" where
  "drop_duplicates_last key xs =
     map fst (filter (\<lambda>(x, d). \<not> d) (zip xs (duplicated_last (map key xs))))"

definition row_key :: "row \<Rightarrow> string option \<times> pydatetime option" where
  "row_key r = (tradingsymbol r, timestamp r)"

definition dedupe :: "row list \<Rightarrow> row list" where
  "dedupe frame = drop_duplicates_last row_key frame"

text \<open>
  \<open>_filter_market_hours\<close>.  A row whose timestamp is NaT has no time of day and
  fails both comparisons.
\<close>

definition in_market_hours :: "row \<Rightarrow> bool" where
  "in_market_hours r =
     (case timestamp r of
        None \<Rightarrow> False
      | Some t \<Rightarrow>
          time_le (mk_time (fst MARKET_OPEN) (snd MARKET_OPEN)) (dt_time t) \<and>
          time_le (dt_time t) (mk_time (fst MARKET_CLOSE) (snd MARKET_CLOSE)))"

definition filter_market_hours :: "row list \<Rightarrow> row list" where
  "filter_market_hours frame = filter in_market_hours frame"

definition valid_mask :: "row \<Rightarrow> bool" where
  "valid_mask r =
     (f64_ge (high r) (low r) \<and>
      f64_le (open_price r) (high r) \<and>
      f64_ge (open_price r) (low r) \<and>
      f64_le (close r) (high r) \<and>
      f64_ge (close r) (low r))"

definition validate_ohlc :: "row list \<Rightarrow> row list" where
  "validate_ohlc frame = filter valid_mask frame"

definition add_trade_date :: "pydatetime \<Rightarrow> row \<Rightarrow> row" where
  "add_trade_date td r = r\<lparr>trade_date := Some td\<rparr>"

definition transform :: "pydatetime \<Rightarrow> raw_candle list \<Rightarrow> py_error + row list" where
  "transform td raw_data =
     (if raw_data = [] then Inr []
      else
        (case convert_dtypes raw_data of
           Inl e \<Rightarrow> Inl e
         | Inr frame \<Rightarrow>
             Inr (map (add_trade_date td)
                   (validate_ohlc (filter_market_hours (dedupe (validate_timestamps frame)))))))"

text \<open>
  \<open>transform_batch\<close>: the dictionary is a list of (symbol, candles) pairs in insertion
  order.  The loop ignores the key; a frame without rows adds nothing to the result.
\<close>

fun transform_batch ::
  "pydatetime \<Rightarrow> (string \<times> raw_candle list) list \<Rightarrow> py_error + row list" where
  "transform_batch td [] = Inr []"
| "transform_batch td ((symbol, candles) # rest) =
     (case transform td candles of
        Inl e \<Rightarrow> Inl e
      | Inr frame \<Rightarrow>
          (case transform_batch td rest of
             Inl e \<Rightarrow> Inl e
           | Inr dfs \<Rightarrow> Inr (frame @ dfs)))"

text \<open>\<open>df.to_dict(orient="records")\<close>: the rows of a frame as candle dictionaries.\<close>

definition to_records :: "row \<Rightarrow> raw_candle" where
  "to_records r =
     \<lparr>timestamp = (case timestamp r of None \<Rightarrow> Null | Some t \<Rightarrow> Val t),
      open_price = Val (open_price r), high = Val (high r), low = Val (low r), close = Val (close r),
      volume = Val (volume r),
      tradingsymbol = tradingsymbol r, instrument_token = instrument_token r,
      exchange = exchange r, trade_date = trade_date r\<rparr>"


section \<open>Nifty500Extractor\<close>

record instrument =
  inst_tradingsymbol :: string
  inst_instrument_token :: int
  segment :: "string option"
  instrument_type :: "string option"




text \<open>
  \<open>get_nse_instruments\<close>: the catalogue of the exchange, filtered for the equity
  segment.  The catalogue request itself can raise.
\<close>

definition get_nse_instruments :: "py_error + instrument list \<Rightarrow> py_error + instrument list" where
  "get_nse_instruments catalogue =
     (case catalogue of
        Inl e \<Rightarrow> Inl e
      | Inr all_instruments \<Rightarrow>
          Inr (filter (\<lambda>inst. segment inst = Some ''NSE'' \<and> instrument_type inst = Some ''EQ'')
                all_instruments))"

definition get_fallback_symbols :: "string list" where
  "get_fallback_symbols =
     [''RELIANCE'', ''TCS'', ''HDFCBANK'', ''INFY'', ''ICICIBANK'',
      ''HINDUNILVR'', ''SBIN'', ''BHARTIARTL'', ''KOTAKBANK'', ''ITC'',
      ''LT'', ''AXISBANK'', ''BAJFINANCE'', ''ASIANPAINT'', ''MARUTI'',
      ''TITAN'', ''SUNPHARMA'', ''ULTRACEMCO'', ''WIPRO'', ''HCLTECH'']"

text \<open>
  \<open>_get_nifty500_symbols\<close>.  The argument is what \<open>pd.read_csv\<close> of the index list
  gives: an exception, or a table as a list of named columns.  Both the failed request
  and the \<open>KeyError\<close> of a table without the column \<open>Symbol\<close> are caught by the
  \<open>except Exception\<close> clause.
\<close>

definition get_nifty500_symbols :: "py_error + (string \<times> string list) list \<Rightarrow> string list" where
  "get_nifty500_symbols fetched =
     (case fetched of
        Inl e \<Rightarrow> get_fallback_symbols
      | Inr frame \<Rightarrow>
          (case map_of frame ''Symbol'' of
             None \<Rightarrow> get_fallback_symbols
           | Some symbols \<Rightarrow> symbols))"

text \<open>
  \<open>get_nifty500_instruments\<close>.  \<open>symbol_map\<close> is a dictionary built in catalogue
  order, so a later instrument with the same symbol replaces an earlier one.
\<close>

definition symbol_map :: "instrument list \<Rightarrow> string \<Rightarrow> instrument option" where
  "symbol_map nse_instruments = map_of (rev (map (\<lambda>inst. (inst_tradingsymbol inst, inst)) nse_instruments))"

definition get_nifty500_instruments ::
  "py_error + instrument list \<Rightarrow> py_error + (string \<times> string list) list \<Rightarrow>
   string list option \<Rightarrow> py_error + instrument list" where
  "get_nifty500_instruments catalogue fetched symbols =
     (case get_nse_instruments catalogue of
        Inl e \<Rightarrow> Inl e
      | Inr nse_instruments \<Rightarrow>
          (let syms = (case symbols of None \<Rightarrow> get_nifty500_symbols fetched | Some l \<Rightarrow> l)
           in Inr (List.map_filter (symbol_map nse_instruments) syms)))"








section \<open>Decimal text\<close>

definition digit_char :: "nat \<Rightarrow> char" where
  "digit_char d = ''0123456789'' ! d"

function str_nat :: "nat \<Rightarrow> string" where
  "str_nat n = (if n < 10 then [digit_char n] else str_nat (n div 10) @ [digit_char (n mod 10)])"
  by pat_completeness auto
termination
  by (relation "measure id") auto

declare str_nat.simps [simp del]

definition zero_pad :: "nat \<Rightarrow> string \<Rightarrow> string" where
  "zero_pad width s = replicate (width - length s) CHR ''0'' @ s"

text \<open>\<open>strftime("%Y-%m-%d")\<close>, for the years from 1000 on (four digits on every platform).\<close>

definition strftime_Ymd :: "pydate \<Rightarrow> string" where
  "strftime_Ymd d =
     zero_pad 4 (str_nat (year d)) @ ''-'' @ zero_pad 2 (str_nat (month d)) @ ''-'' @
     zero_pad 2 (str_nat (day d))"

section \<open>ParquetLoader\<close>

text \<open>
  A data frame: the names of its columns and its rows.  A cell of a column that the
  frame does not have is never read.
\<close>

record dataframe =
  columns :: "string list"
  rows :: "row list"

definition DataFrame :: dataframe where
  "DataFrame = \<lparr>columns = [], rows = []\<rparr>"

definition df_empty :: "dataframe \<Rightarrow> bool" where
  "df_empty frame = (columns frame = [] \<or> rows frame = [])"

definition concat_frames :: "dataframe list \<Rightarrow> dataframe" where
  "concat_frames dfs = \<lparr>columns = remdups (concat (map columns dfs)), rows = concat (map rows dfs)\<rparr>"

text \<open>
  The file system: a list of the paths that exist, each a directory or a file.  A path is
  the list of its names below the root, every name free of \<open>/\<close>.  A file holds the
  frame that \<open>pd.read_parquet\<close> gives for it, or nothing when it cannot be read.
  Partitions are flat: a directory is not read as a multi-file dataset.
\<close>

datatype entry = Dir | File "dataframe option"

type_synonym filesystem = "(string list \<times> entry) list"

record loader =
  base_path :: "string list"

definition path_str :: "string list \<Rightarrow> string" where
  "path_str p = concat (map (\<lambda>name. ''/'' @ name) p)"

definition path_exists :: "filesystem \<Rightarrow> string list \<Rightarrow> bool" where
  "path_exists fs p = (p = [] \<or> map_of fs p \<noteq> None)"

text \<open>
  \<open>mkdir(parents=True, exist_ok=True)\<close>: every missing ancestor is created; a file in
  the way raises.  The second argument is the part of the path already walked.
\<close>

fun mkdir_parents :: "filesystem \<Rightarrow> string list \<Rightarrow> string list \<Rightarrow> py_error option \<times> filesystem" where
  "mkdir_parents fs walked [] = (None, fs)"
| "mkdir_parents fs walked (name # names) =
     (let p = walked @ [name] in
      case map_of fs p of
        Some (File content) \<Rightarrow> (Some (OSError (path_str p)), fs)
      | Some Dir \<Rightarrow> mkdir_parents fs p names
      | None \<Rightarrow> mkdir_parents (fs @ [(p, Dir)]) p names)"

definition write_table :: "dataframe \<Rightarrow> string list \<Rightarrow> filesystem \<Rightarrow> py_error + filesystem" where
  "write_table frame file_path fs =
     (case map_of fs file_path of
        Some Dir \<Rightarrow> Inl (OSError (path_str file_path))
      | _ \<Rightarrow> Inr (AList.update file_path (File (Some frame)) fs))"

definition read_parquet :: "entry \<Rightarrow> py_error + dataframe" where
  "read_parquet e =
     (case e of
        File (Some frame) \<Rightarrow> Inr frame
      | File None \<Rightarrow> Inl (OSError ''parquet'')
      | Dir \<Rightarrow> Inl (OSError ''directory''))"

definition endswith :: "string \<Rightarrow> string \<Rightarrow> bool" where
  "endswith s suffix = (length suffix \<le> length s \<and> drop (length s - length suffix) s = suffix)"

text \<open>\<open>partition_path.glob("*.parquet")\<close>: the entries directly below the partition.\<close>

definition glob_parquet :: "filesystem \<Rightarrow> string list \<Rightarrow> entry list" where
  "glob_parquet fs partition_path =
     map snd (filter (\<lambda>(q, e). q \<noteq> [] \<and> butlast q = partition_path \<and> endswith (last q) ''.parquet'') fs)"

fun read_all :: "entry list \<Rightarrow> py_error + dataframe list" where
  "read_all [] = Inr []"
| "read_all (e # es) =
     (case read_parquet e of
        Inl err \<Rightarrow> Inl err
      | Inr frame \<Rightarrow>
          (case read_all es of
             Inl err \<Rightarrow> Inl err
           | Inr dfs \<Rightarrow> Inr (frame # dfs)))"

definition partition_path_of :: "loader \<Rightarrow> string \<Rightarrow> string \<Rightarrow> pydatetime \<Rightarrow> string list" where
  "partition_path_of self layer underlying td =
     base_path self @
       [''fno'', layer, ''underlying='' @ underlying, ''date='' @ strftime_Ymd (dt_date td)]"

text \<open>
  \<open>_write_layer\<close>.  The result is the returned string (or the exception) and the file
  system after the call.
\<close>

definition write_layer ::
  "loader \<Rightarrow> string \<Rightarrow> dataframe \<Rightarrow> string \<Rightarrow> pydatetime \<Rightarrow> bool \<Rightarrow> string \<Rightarrow> filesystem \<Rightarrow>
   (py_error + string) \<times> filesystem" where
  "write_layer self layer frame underlying td overwrite filename fs =
     (if df_empty frame then (Inr [], fs)
      else
        (let partition_path = partition_path_of self layer underlying td in
         case mkdir_parents fs [] partition_path of
           (Some e, fs1) \<Rightarrow> (Inl e, fs1)
         | (None, fs1) \<Rightarrow>
             (let file_path = partition_path @ [filename] in
              if path_exists fs1 file_path \<and> \<not> overwrite then (Inr (path_str file_path), fs1)
              else
                (case write_table frame file_path fs1 of
                   Inl e \<Rightarrow> (Inl e, fs1)
                 | Inr fs2 \<Rightarrow> (Inr (path_str file_path), fs2)))))"

definition write_raw ::
  "loader \<Rightarrow> dataframe \<Rightarrow> string \<Rightarrow> pydatetime \<Rightarrow> bool \<Rightarrow> filesystem \<Rightarrow>
   (py_error + string) \<times> filesystem" where
  "write_raw self frame underlying td overwrite fs =
     write_layer self ''raw'' frame underlying td overwrite ''data.parquet'' fs"

definition write_processed ::
  "loader \<Rightarrow> dataframe \<Rightarrow> string \<Rightarrow> pydatetime \<Rightarrow> bool \<Rightarrow> filesystem \<Rightarrow>
   (py_error + string) \<times> filesystem" where
  "write_processed self frame underlying td overwrite fs =
     write_layer self ''processed'' frame underlying td overwrite ''data.parquet'' fs"

definition write_analytics ::
  "loader \<Rightarrow> dataframe \<Rightarrow> string \<Rightarrow> pydatetime \<Rightarrow> string \<Rightarrow> bool \<Rightarrow> filesystem \<Rightarrow>
   (py_error + string) \<times> filesystem" where
  "write_analytics self frame underlying td filename overwrite fs =
     write_layer self ''analytics'' frame underlying td overwrite filename fs"

definition read_partition ::
  "loader \<Rightarrow> string \<Rightarrow> string \<Rightarrow> pydatetime \<Rightarrow> filesystem \<Rightarrow> py_error + dataframe" where
  "read_partition self layer underlying td fs =
     (let partition_path = partition_path_of self layer underlying td in
      if \<not> path_exists fs partition_path then Inr DataFrame
      else
        (case read_all (glob_parquet fs partition_path) of
           Inl e \<Rightarrow> Inl e
         | Inr dfs \<Rightarrow> if dfs = [] then Inr DataFrame else Inr (concat_frames dfs)))"

text \<open>
  The attributes that an instance of \<open>ParquetLoader\<close> has: its field and the methods of
  the class.  Looking up any other name raises \<open>AttributeError\<close>.
\<close>

definition ParquetLoader_attributes :: "string list" where
  "ParquetLoader_attributes =
     [''base_path'', ''__init__'', ''write_raw'', ''write_processed'', ''write_analytics'',
      ''_write_layer'', ''read_partition'', ''list_partitions'']"

definition getattr_ParquetLoader :: "string \<Rightarrow> py_error + string" where
  "getattr_ParquetLoader name =
     (if name \<in> set ParquetLoader_attributes then Inr name else Inl (AttributeError name))"

section \<open>DataQualityChecker\<close>

record checker =
  df :: dataframe
  errors :: "string list"
  warnings :: "string list"

definition DataQualityChecker :: "dataframe \<Rightarrow> checker" where
  "DataQualityChecker frame = \<lparr>df = frame, errors = [], warnings = []\<rparr>"

definition f64_eq :: "f64 \<Rightarrow> f64 \<Rightarrow> bool" where
  "f64_eq x y = (x \<noteq> NaN \<and> y \<noteq> NaN \<and> x = y)"

definition count :: "('a \<Rightarrow> bool) \<Rightarrow> 'a list \<Rightarrow> nat" where
  "count P xs = length (filter P xs)"

definition check_not_empty :: "checker \<Rightarrow> checker" where
  "check_not_empty self =
     (if df_empty (df self) then self\<lparr>errors := errors self @ [''DataFrame is empty'']\<rparr>
      else self)"

definition check_no_null_timestamps :: "checker \<Rightarrow> checker" where
  "check_no_null_timestamps self =
     (if ''timestamp'' \<notin> set (columns (df self))
      then self\<lparr>errors := errors self @ [''Missing 'timestamp' column'']\<rparr>
      else
        (let null_count = count (\<lambda>r. timestamp r = None) (rows (df self)) in
         if null_count > 0
         then self\<lparr>errors := errors self @ [''Found '' @ str_nat null_count @ '' null timestamps'']\<rparr>
         else self))"

text \<open>\<open>duplicated()\<close> with the default \<open>keep="first"\<close> marks every occurrence but the first.\<close>

fun duplicated_first :: "'k list \<Rightarrow> 'k list \<Rightarrow> bool list" where
  "duplicated_first seen [] = []"
| "duplicated_first seen (k # ks) = (k \<in> set seen) # duplicated_first (k # seen) ks"

definition check_unique_symbol_timestamps :: "checker \<Rightarrow> checker" where
  "check_unique_symbol_timestamps self =
     (if ''tradingsymbol'' \<notin> set (columns (df self)) \<or> ''timestamp'' \<notin> set (columns (df self))
      then self
      else
        (let duplicates = count (\<lambda>d. d) (duplicated_first [] (map row_key (rows (df self)))) in
         if duplicates > 0
         then self\<lparr>warnings := warnings self @
                [''Found '' @ str_nat duplicates @ '' duplicate (symbol, timestamp) pairs'']\<rparr>
         else self))"

text \<open>A null timestamp has no time of day: both comparisons are false for it.\<close>

definition outside_hours :: "row \<Rightarrow> bool" where
  "outside_hours r =
     (case timestamp r of
        None \<Rightarrow> False
      | Some t \<Rightarrow> time_lt (dt_time t) (mk_time 9 15) \<or> time_lt (mk_time 15 30) (dt_time t))"

definition check_market_hours :: "checker \<Rightarrow> checker" where
  "check_market_hours self =
     (if ''timestamp'' \<notin> set (columns (df self)) then self
      else
        (let n = count outside_hours (rows (df self)) in
         if n > 0
         then self\<lparr>warnings := warnings self @ [str_nat n @ '' records outside market hours'']\<rparr>
         else self))"

definition price_cols :: "(string \<times> (row \<Rightarrow> f64)) list" where
  "price_cols = [(''open'', open_price), (''high'', high), (''low'', low), (''close'', close)]"

definition check_price_col :: "string \<times> (row \<Rightarrow> f64) \<Rightarrow> checker \<Rightarrow> checker" where
  "check_price_col c self =
     (if fst c \<notin> set (columns (df self)) then self
      else
        (let negative = count (\<lambda>r. f64_lt (snd c r) (Fin 0)) (rows (df self));
             self1 = (if negative > 0
                      then self\<lparr>errors := errors self @
                             [''Found '' @ str_nat negative @ '' negative values in '' @ fst c]\<rparr>
                      else self);
             zero = count (\<lambda>r. f64_eq (snd c r) (Fin 0)) (rows (df self))
         in if zero > 0
            then self1\<lparr>warnings := warnings self1 @
                   [''Found '' @ str_nat zero @ '' zero values in '' @ fst c]\<rparr>
            else self1))"

definition check_price_validity :: "checker \<Rightarrow> checker" where
  "check_price_validity self =
     (let self1 = fold check_price_col price_cols self in
      if list_all (\<lambda>c. fst c \<in> set (columns (df self1))) price_cols
      then
        (let invalid_high = count (\<lambda>r. f64_lt (high r) (low r)) (rows (df self1)) in
         if invalid_high > 0
         then self1\<lparr>errors := errors self1 @
                [''Found '' @ str_nat invalid_high @ '' rows where high < low'']\<rparr>
         else self1)
      else self1)"

definition run_all_checks :: "checker \<Rightarrow> bool \<times> string list \<times> string list" where
  "run_all_checks self =
     (let self1 = check_not_empty self;
          self2 = check_no_null_timestamps self1;
          self3 = check_unique_symbol_timestamps self2;
          self4 = check_market_hours self3;
          self5 = check_price_validity self4;
          passed = (length (errors self5) = 0)
      in (passed, errors self5, warnings self5))"

text \<open>
  \<open>repr\<close> of a string without backslashes and control characters, and of a list of
  such strings.
\<close>

definition repr_str :: "string \<Rightarrow> string" where
  "repr_str s =
     (if CHR 0x27 \<in> set s \<and> CHR 0x22 \<notin> set s then [CHR 0x22] @ s @ [CHR 0x22]
      else [CHR 0x27] @ concat (map (\<lambda>c. if c = CHR 0x27 then [CHR 0x5C, c] else [c]) s) @ [CHR 0x27])"

fun join :: "string \<Rightarrow> string list \<Rightarrow> string" where
  "join sep [] = []"
| "join sep [s] = s"
| "join sep (s # t # ss) = s @ sep @ join sep (t # ss)"

definition repr_list :: "string list \<Rightarrow> string" where
  "repr_list ss = ''['' @ join '', '' (map repr_str ss) @ '']''"

definition validate_dataframe :: "dataframe \<Rightarrow> py_error + bool" where
  "validate_dataframe frame =
     (case run_all_checks (DataQualityChecker frame) of
        (passed, errs, warns) \<Rightarrow>
          if \<not> passed then Inl (ValueError (''Data quality checks failed: '' @ repr_list errs))
          else Inr True)"

section \<open>The quality-check tasks of the pipelines\<close>

text \<open>
  The dictionary that one task hands to the next, with the keys the tasks read.  The
  trade date is kept as the parsed date.
\<close>

record stage_result =
  res_status :: string
  res_underlying :: string
  res_trade_date :: pydatetime
  res_file_path :: string
  res_row_count :: nat
  res_dataframe :: dataframe
  res_passed :: "bool option"
  res_errors :: "string list"
  res_warnings :: "string list"
  res_reason :: "string option"

text \<open>\<open>quality_check\<close> of the derivatives pipeline (\<open>fno_etl_dag\<close>).\<close>

definition fno_quality_check ::
  "loader \<Rightarrow> stage_result \<Rightarrow> filesystem \<Rightarrow> py_error + stage_result" where
  "fno_quality_check self process_result fs =
     (if res_status process_result \<noteq> ''success'' then Inr process_result
      else
        (case read_partition self ''processed'' (res_underlying process_result)
                (res_trade_date process_result) fs of
           Inl e \<Rightarrow> Inl e
         | Inr frame \<Rightarrow>
             (case run_all_checks (DataQualityChecker frame) of
                (passed, errs, warns) \<Rightarrow>
                  Inr (process_result
                        \<lparr>res_passed := Some passed, res_errors := errs, res_warnings := warns,
                         res_row_count := length (rows frame),
                         res_status := (if passed then ''success'' else ''quality_failed'')\<rparr>))))"

text \<open>
  \<open>load_raw_data\<close> of the equity pipeline (\<open>nifty500_etl_dag\<close>): the task looks up
  \<open>write_equity_raw\<close> on the loader and calls it with the frame and the trade date.
  Every method that the class does have needs more arguments than these two.
\<close>

definition nifty500_load_raw_data ::
  "loader \<Rightarrow> stage_result \<Rightarrow> filesystem \<Rightarrow> (py_error + stage_result) \<times> filesystem" where
  "nifty500_load_raw_data self transform_result fs =
     (if res_status transform_result \<noteq> ''success'' then (Inr transform_result, fs)
      else
        (case getattr_ParquetLoader ''write_equity_raw'' of
           Inl e \<Rightarrow> (Inl e, fs)
         | Inr method \<Rightarrow> (Inl (TypeError method), fs)))"

text \<open>
  \<open>quality_check\<close> of the equity pipeline (\<open>nifty500_etl_dag\<close>).  The arguments are the
  text of a float under a format specification (Python's own formatting), the result of
  the upload task, and what \<open>pd.read_parquet(file_path)\<close> gives.  A result built from
  scratch (\<open>skipped\<close>) is the passed result with the status and the reason replaced.
\<close>

definition critical_cols :: "(string \<times> (row \<Rightarrow> bool)) list" where
  "critical_cols =
     [(''timestamp'', \<lambda>r. timestamp r = None), (''open'', \<lambda>r. open_price r = NaN),
      (''high'', \<lambda>r. high r = NaN), (''low'', \<lambda>r. low r = NaN), (''close'', \<lambda>r. close r = NaN)]"

definition null_errors :: "(string \<Rightarrow> rat \<Rightarrow> string) \<Rightarrow> dataframe \<Rightarrow> string list" where
  "null_errors fmt frame =
     concat (map (\<lambda>(col, isnull).
       if col \<in> set (columns frame) \<and> rows frame \<noteq> [] \<and>
          of_nat (count isnull (rows frame)) / of_nat (length (rows frame)) * 100 > (1 :: rat)
       then [''Column '' @ col @ '' has '' @
             fmt ''.2f'' (of_nat (count isnull (rows frame)) / of_nat (length (rows frame)) * 100) @
             ''% nulls'']
       else []) critical_cols)"

definition invalid_ohlc :: "row \<Rightarrow> bool" where
  "invalid_ohlc r =
     (f64_lt (high r) (low r) \<or> f64_lt (high r) (open_price r) \<or> f64_lt (high r) (close r) \<or>
      f64_lt (open_price r) (low r) \<or> f64_lt (close r) (low r))"

definition nifty500_quality_check ::
  "(string \<Rightarrow> rat \<Rightarrow> string) \<Rightarrow> stage_result \<Rightarrow> py_error + dataframe \<Rightarrow> py_error + stage_result" where
  "nifty500_quality_check fmt upload_result read =
     (if res_status upload_result \<noteq> ''success'' then Inr upload_result
      else if res_file_path upload_result = []
      then Inr (upload_result\<lparr>res_status := ''skipped'', res_reason := Some ''no file path''\<rparr>)
      else
        (case read of
           Inl e \<Rightarrow> Inl e
         | Inr frame \<Rightarrow>
             (let n = length (rows frame);
                  symbols_count =
                    (if ''tradingsymbol'' \<in> set (columns frame)
                     then length (remdups (List.map_filter tradingsymbol (rows frame))) else 0);
                  expected_min = of_nat symbols_count * 75 * (8 / 10);
                  warns = (if of_nat n < expected_min
                           then [''Row count '' @ str_nat n @ '' below expected minimum '' @
                                 fmt [] expected_min]
                           else []);
                  errs1 = null_errors fmt frame
              in case filter (\<lambda>col. col \<notin> set (columns frame)) [''high'', ''low'', ''open'', ''close''] of
                   col # cols \<Rightarrow> Inl (KeyError col)
                 | [] \<Rightarrow>
                     (let bad = count invalid_ohlc (rows frame);
                          errs = errs1 @
                            (if bad > 0
                             then [''Found '' @ str_nat bad @ '' rows with invalid OHLC values'']
                             else []);
                          passed = (length errs = 0)
                      in Inr (upload_result
                               \<lparr>res_passed := Some passed, res_errors := errs, res_warnings := warns,
                                res_row_count := n,
                                res_status := (if passed then ''success'' else ''quality_failed'')\<rparr>)))))"

section \<open>Example data\<close>

definition example_date :: pydatetime where
  "example_date = \<lparr>dt_date = \<lparr>year = 2025, month = 1, day = 6\<rparr>, dt_time = mk_time 0 0\<rparr>"

definition example_ts :: "nat \<Rightarrow> nat \<Rightarrow> pydatetime" where
  "example_ts h m = \<lparr>dt_date = \<lparr>year = 2025, month = 1, day = 6\<rparr>, dt_time = mk_time h m\<rparr>"

text \<open>A candle as the extractor hands it over: time, open, high, low, close, volume.\<close>

definition example_candle ::
  "string \<Rightarrow> pydatetime cell \<Rightarrow> rat \<Rightarrow> rat \<Rightarrow> rat \<Rightarrow> rat \<Rightarrow> int cell \<Rightarrow> raw_candle" where
  "example_candle s t opn h l c v =
     \<lparr>timestamp = t, open_price = Val (Fin opn), high = Val (Fin h), low = Val (Fin l),
      close = Val (Fin c), volume = v, tradingsymbol = Some s, instrument_token = Some 1,
      exchange = Some ''NSE'', trade_date = None\<rparr>"

definition example_row ::
  "string \<Rightarrow> pydatetime \<Rightarrow> rat \<Rightarrow> rat \<Rightarrow> rat \<Rightarrow> rat \<Rightarrow> int \<Rightarrow> row" where
  "example_row s t opn h l c v =
     \<lparr>timestamp = Some t, open_price = Fin opn, high = Fin h, low = Fin l,
      close = Fin c, volume = v, tradingsymbol = Some s, instrument_token = Some 1,
      exchange = Some ''NSE'', trade_date = Some example_date\<rparr>"

text \<open>
  Four candles of one symbol: a good one at the opening minute, one whose high lies
  below its low, one after the close of the session, and one without a timestamp.
\<close>

definition example_raw_data :: "raw_candle list" where
  "example_raw_data =
     [example_candle ''X'' (Val (example_ts 9 15)) 100 105 99 101 (Val 10),
      example_candle ''X'' (Val (example_ts 10 0)) 100 98 99 101 (Val 10),
      example_candle ''X'' (Val (example_ts 16 0)) 100 105 99 101 (Val 10),
      example_candle ''X'' Null 100 105 99 101 (Val 10)]"

text \<open>Symbol X with the same timestamp twice, the closes 10.0 and 10.5 in this order.\<close>

definition example_duplicates :: "raw_candle list" where
  "example_duplicates =
     [example_candle ''X'' (Val (example_ts 10 0)) 10 11 9 10.0 (Val 10),
      example_candle ''X'' (Val (example_ts 10 0)) 10 11 9 10.5 (Val 10)]"

text \<open>
  Two dictionaries for \<open>transform_batch\<close>: one as the extractor builds it, every candle
  under its own symbol, and one whose two entries both hold a candle of symbol X.
\<close>

definition example_batch :: "(string \<times> raw_candle list) list" where
  "example_batch =
     [(''X'', example_duplicates),
      (''Y'', [example_candle ''Y'' (Val (example_ts 10 0)) 20 21 19 20 (Val 5)])]"

definition example_mixed_batch :: "(string \<times> raw_candle list) list" where
  "example_mixed_batch =
     [(''A'', [example_candle ''X'' (Val (example_ts 10 0)) 10 11 9 10.0 (Val 10)]),
      (''B'', [example_candle ''X'' (Val (example_ts 10 0)) 10 11 9 10.5 (Val 10)])]"

text \<open>A candle with four negative prices in the right order and no volume.\<close>

definition example_negative :: raw_candle where
  "example_negative = example_candle ''X'' (Val (example_ts 11 0)) (- 10) (- 5) (- 12) (- 7) Null"





text \<open>A loader below \<open>/opt/airflow/data/lake\<close>, and the result of a transform task.\<close>

definition example_loader :: loader where
  "example_loader = \<lparr>base_path = [''opt'', ''airflow'', ''data'', ''lake'']\<rparr>"

definition example_frame :: dataframe where
  "example_frame =
     \<lparr>columns = [''timestamp'', ''open'', ''high'', ''low'', ''close'', ''volume'',
                 ''tradingsymbol'', ''instrument_token'', ''exchange'', ''trade_date''],
      rows = [example_row ''X'' (example_ts 9 15) 100 105 99 101 10]\<rparr>"

definition example_transform_result :: stage_result where
  "example_transform_result =
     \<lparr>res_status = ''success'', res_underlying = ''NIFTY'', res_trade_date = example_date,
      res_file_path = [], res_row_count = 1, res_dataframe = example_frame,
      res_passed = None, res_errors = [], res_warnings = [], res_reason = None\<rparr>"

text \<open>A file system with an empty partition directory that holds one text file.\<close>

definition example_fs :: filesystem where
  "example_fs =
     [([''opt'', ''airflow'', ''data'', ''lake'', ''fno'', ''raw'', ''underlying=NIFTY'',
        ''date=2025-01-06''], Dir),
      ([''opt'', ''airflow'', ''data'', ''lake'', ''fno'', ''raw'', ''underlying=NIFTY'',
        ''date=2025-01-06'', ''notes.txt''], File None)]"

text \<open>A frame whose only defect is that its one row appears twice.\<close>

definition example_duplicate_frame :: dataframe where
  "example_duplicate_frame =
     \<lparr>columns = [''timestamp'', ''open'', ''high'', ''low'', ''close'', ''volume'',
                 ''tradingsymbol'', ''instrument_token'', ''exchange'', ''trade_date''],
      rows = [example_row ''X'' (example_ts 9 15) 100 105 99 101 10,
              example_row ''X'' (example_ts 9 15) 100 105 99 101 10]\<rparr>"

text \<open>
  Frames with a structural defect: one without the timestamp column, one without the
  price column \<open>high\<close>, one whose column \<open>open\<close> is null in every row.
\<close>

definition example_no_timestamp :: dataframe where
  "example_no_timestamp =
     \<lparr>columns = [''open'', ''high'', ''low'', ''close'', ''volume'', ''tradingsymbol''],
      rows = [example_row ''X'' (example_ts 9 15) 100 105 99 101 10]\<rparr>"

definition example_no_high :: dataframe where
  "example_no_high =
     \<lparr>columns = [''timestamp'', ''open'', ''low'', ''close'', ''volume'', ''tradingsymbol''],
      rows = [example_row ''X'' (example_ts 9 15) 100 105 99 101 10]\<rparr>"

definition example_null_open :: dataframe where
  "example_null_open =
     \<lparr>columns = [''timestamp'', ''open'', ''high'', ''low'', ''close'', ''volume'',
                 ''tradingsymbol''],
      rows = [(example_row ''X'' (example_ts 9 15) 100 105 99 101 10)\<lparr>open_price := NaN\<rparr>]\<rparr>"

text \<open>
  The result of a process task, and a file system whose processed partition holds the
  frame without the timestamp column.
\<close>

definition example_process_result :: stage_result where
  "example_process_result =
     \<lparr>res_status = ''success'', res_underlying = ''NIFTY'', res_trade_date = example_date,
      res_file_path = ''/opt/airflow/data/lake/fno/processed/underlying=NIFTY/date=2025-01-06/data.parquet'',
      res_row_count = 1, res_dataframe = DataFrame,
      res_passed = None, res_errors = [], res_warnings = [], res_reason = None\<rparr>"

definition example_processed_fs :: filesystem where
  "example_processed_fs =
     [([''opt'', ''airflow'', ''data'', ''lake'', ''fno'', ''processed'', ''underlying=NIFTY'',
        ''date=2025-01-06''], Dir),
      ([''opt'', ''airflow'', ''data'', ''lake'', ''fno'', ''processed'', ''underlying=NIFTY'',
        ''date=2025-01-06'', ''data.parquet''], File (Some example_no_timestamp))]"

section \<open>Properties of the transformer\<close>

lemma drop_duplicates_last_Nil: "drop_duplicates_last key [] = []"
  by (simp add: drop_duplicates_last_def)

lemma drop_duplicates_last_Cons:
  "drop_duplicates_last key (x # xs) =
     (if key x \<in> key ` set xs then drop_duplicates_last key xs
      else x # drop_duplicates_last key xs)"
  by (simp add: drop_duplicates_last_def)

lemma set_drop_duplicates_last: "set (drop_duplicates_last key xs) \<subseteq> set xs"
  by (induction xs) (auto simp: drop_duplicates_last_Nil drop_duplicates_last_Cons)

lemma keys_drop_duplicates_last:
  "key ` set (drop_duplicates_last key xs) = key ` set xs"
  by (induction xs) (auto simp: drop_duplicates_last_Nil drop_duplicates_last_Cons)

lemma distinct_drop_duplicates_last:
  "distinct (map key (drop_duplicates_last key xs))"
proof (induction xs)
  case Nil
  show ?case by (simp add: drop_duplicates_last_Nil)
next
  case (Cons x xs)
  show ?case
  proof (cases "key x \<in> key ` set xs")
    case True
    with Cons show ?thesis by (simp add: drop_duplicates_last_Cons)
  next
    case False
    then have "key x \<notin> key ` set (drop_duplicates_last key xs)"
      by (simp add: keys_drop_duplicates_last)
    with Cons False show ?thesis by (simp add: drop_duplicates_last_Cons)
  qed
qed

lemma drop_duplicates_last_distinct:
  "distinct (map key xs) \<Longrightarrow> drop_duplicates_last key xs = xs"
  by (induction xs) (auto simp: drop_duplicates_last_Nil drop_duplicates_last_Cons)


lemma convert_dtypes_Inr:
  "convert_dtypes cs = Inr frame \<Longrightarrow>
     list_all2 (\<lambda>c r. \<exists>t. to_datetime (timestamp c) = Inr t \<and> r = convert_row t c) cs frame"
proof (induction cs arbitrary: frame)
  case Nil
  then show ?case by simp
next
  case (Cons c cs)
  from Cons.prems obtain t rs where
    t: "to_datetime (timestamp c) = Inr t" and rs: "convert_dtypes cs = Inr rs"
    and frame: "frame = convert_row t c # rs"
    by (simp split: sum.splits)
  with Cons.IH[OF rs] show ?case by auto
qed

lemma convert_dtypes_row:
  "convert_dtypes cs = Inr frame \<Longrightarrow> r \<in> set frame \<Longrightarrow>
     \<exists>c\<in>set cs. \<exists>t. to_datetime (timestamp c) = Inr t \<and> r = convert_row t c"
proof (induction cs arbitrary: frame)
  case Nil
  then show ?case by simp
next
  case (Cons c cs)
  from Cons.prems(1) obtain t rs where
    t: "to_datetime (timestamp c) = Inr t" and rs: "convert_dtypes cs = Inr rs"
    and frame: "frame = convert_row t c # rs"
    by (simp split: sum.splits)
  from Cons.prems(2) frame have "r = convert_row t c \<or> r \<in> set rs" by simp
  then show ?case
  proof
    assume "r = convert_row t c"
    with t show ?thesis by auto
  next
    assume "r \<in> set rs"
    from Cons.IH[OF rs this] show ?thesis by auto
  qed
qed

lemma transform_Inr:
  assumes "transform td raw_data = Inr out"
  shows "\<exists>frame. convert_dtypes raw_data = Inr frame \<and>
           out = map (add_trade_date td)
                   (validate_ohlc (filter_market_hours (dedupe (validate_timestamps frame))))"
proof (cases "raw_data = []")
  case True
  with assms show ?thesis
    by (simp add: transform_def validate_ohlc_def filter_market_hours_def dedupe_def
        validate_timestamps_def drop_duplicates_last_Nil)
next
  case False
  with assms show ?thesis
    by (simp add: transform_def split: sum.splits)
qed

lemma f64_le_not_NaN: "f64_le x y \<Longrightarrow> x \<noteq> NaN \<and> y \<noteq> NaN"
  by (cases x; cases y) simp_all

lemma to_numeric_Val: "to_numeric c = x \<Longrightarrow> x \<noteq> NaN \<Longrightarrow> c = Val x"
  by (cases c) simp_all

lemma to_datetime_Some: "to_datetime c = Inr (Some t) \<Longrightarrow> c = Val t"
  by (cases c) simp_all

lemma transform_row:
  assumes "transform td raw_data = Inr out" and "r \<in> set out"
  shows "f64_le (low r) (open_price r) \<and> f64_le (open_price r) (high r) \<and>
         f64_le (low r) (close r) \<and> f64_le (close r) (high r) \<and> f64_le (low r) (high r) \<and>
         (\<exists>t. timestamp r = Some t \<and>
              time_le (mk_time 9 15) (dt_time t) \<and> time_le (dt_time t) (mk_time 15 30) \<and>
              (\<exists>c\<in>set raw_data.
                 timestamp c = Val t \<and>
                 open_price c = Val (open_price r) \<and> high c = Val (high r) \<and>
                 low c = Val (low r) \<and> close c = Val (close r) \<and>
                 r = add_trade_date td (convert_row (Some t) c)))"
proof -
  from assms(1) obtain frame where
    conv: "convert_dtypes raw_data = Inr frame" and
    out: "out = map (add_trade_date td)
            (validate_ohlc (filter_market_hours (dedupe (validate_timestamps frame))))"
    using transform_Inr by blast
  from assms(2) out obtain r0 where
    r: "r = add_trade_date td r0" and
    r0: "r0 \<in> set (validate_ohlc (filter_market_hours (dedupe (validate_timestamps frame))))"
    by auto
  from r0 have ok: "valid_mask r0" and hours: "in_market_hours r0"
    and dd: "r0 \<in> set (dedupe (validate_timestamps frame))"
    by (simp_all add: validate_ohlc_def filter_market_hours_def)
  from dd have "r0 \<in> set (validate_timestamps frame)"
    using set_drop_duplicates_last[of row_key "validate_timestamps frame"]
    unfolding dedupe_def by (rule rev_subsetD)
  then have "r0 \<in> set frame"
    by (simp add: validate_timestamps_def)
  with conv obtain c t0 where c: "c \<in> set raw_data"
    and t0: "to_datetime (timestamp c) = Inr t0" and r0c: "r0 = convert_row t0 c"
    using convert_dtypes_row by blast
  from hours r0c obtain t where t: "t0 = Some t"
    and open_ok: "time_le (mk_time 9 15) (dt_time t)"
    and close_ok: "time_le (dt_time t) (mk_time 15 30)"
    by (cases t0)
       (simp_all add: in_market_hours_def convert_row_def MARKET_OPEN_def MARKET_CLOSE_def)
  from t0 t have tc: "timestamp c = Val t" by (simp add: to_datetime_Some)
  have ts: "timestamp r = Some t"
    by (simp add: r r0c t add_trade_date_def convert_row_def)
  have flds: "open_price r = to_numeric (open_price c)" "high r = to_numeric (high c)"
    "low r = to_numeric (low c)" "close r = to_numeric (close c)"
    by (simp_all add: r r0c add_trade_date_def convert_row_def)
  have flds0: "open_price r0 = open_price r" "high r0 = high r"
    "low r0 = low r" "close r0 = close r"
    by (simp_all add: r add_trade_date_def)
  from ok have ord: "f64_le (low r) (open_price r)" "f64_le (open_price r) (high r)"
    "f64_le (low r) (close r)" "f64_le (close r) (high r)" "f64_le (low r) (high r)"
    by (simp_all add: valid_mask_def f64_ge_def flds0)
  have nn: "open_price r \<noteq> NaN" "high r \<noteq> NaN" "low r \<noteq> NaN" "close r \<noteq> NaN"
    using ord f64_le_not_NaN by blast+
  have vals: "open_price c = Val (open_price r)" "high c = Val (high r)"
    "low c = Val (low r)" "close c = Val (close r)"
    using nn flds by (simp_all add: to_numeric_Val)
  have same: "r = add_trade_date td (convert_row (Some t) c)"
    by (simp only: r r0c t)
  have "\<exists>c\<in>set raw_data.
          timestamp c = Val t \<and>
          open_price c = Val (open_price r) \<and> high c = Val (high r) \<and>
          low c = Val (low r) \<and> close c = Val (close r) \<and>
          r = add_trade_date td (convert_row (Some t) c)"
    by (rule bexI[OF _ c]) (intro conjI tc vals same)
  with ts open_ok close_ok have
    "\<exists>t. timestamp r = Some t \<and>
        time_le (mk_time 9 15) (dt_time t) \<and> time_le (dt_time t) (mk_time 15 30) \<and>
        (\<exists>c\<in>set raw_data.
           timestamp c = Val t \<and>
           open_price c = Val (open_price r) \<and> high c = Val (high r) \<and>
           low c = Val (low r) \<and> close c = Val (close r) \<and>
           r = add_trade_date td (convert_row (Some t) c))"
    by (intro exI[of _ t] conjI)
  with ord show ?thesis by (intro conjI)
qed

lemma transform_batch_row:
  "transform_batch td data_dict = Inr out \<Longrightarrow> r \<in> set out \<Longrightarrow>
     \<exists>candles frame. candles \<in> snd ` set data_dict \<and> transform td candles = Inr frame \<and> r \<in> set frame"
proof (induction data_dict arbitrary: out)
  case Nil
  then show ?case by simp
next
  case (Cons p rest)
  obtain symbol candles where p: "p = (symbol, candles)" by (cases p)
  from Cons.prems(1) p obtain frame dfs where
    f: "transform td candles = Inr frame" and d: "transform_batch td rest = Inr dfs"
    and out: "out = frame @ dfs"
    by (simp split: sum.splits)
  from Cons.prems(2) out have "r \<in> set frame \<or> r \<in> set dfs" by simp
  then show ?case
  proof
    assume "r \<in> set frame"
    with f p show ?thesis by force
  next
    assume "r \<in> set dfs"
    from Cons.IH[OF d this] show ?thesis by auto
  qed
qed

lemmas example_defs = example_raw_data_def example_candle_def example_row_def example_ts_def
  example_date_def

lemmas transform_defs = transform_def convert_row_def validate_timestamps_def dedupe_def
  drop_duplicates_last_def row_key_def filter_market_hours_def in_market_hours_def
  validate_ohlc_def valid_mask_def f64_ge_def add_trade_date_def MARKET_OPEN_def
  MARKET_CLOSE_def mk_time_def time_le_def

text \<open>
  Claim C1.  Every row that \<open>transform\<close> or \<open>transform_batch\<close> returns has
  low \<le> open \<le> high, low \<le> close \<le> high and low \<le> high, and a timestamp that is
  not null and whose time of day lies in [09:15, 15:30], both bounds included.  The row is
  one of the input candles with its prices and its timestamp as they were given: a
  candle that violates a condition is dropped, not repaired.
\<close>

theorem transformed_rows_valid:
  assumes "(transform td raw_data = Inr out \<and> cs = raw_data) \<or>
           (transform_batch td data_dict = Inr out \<and> cs = concat (map snd data_dict))"
    and "r \<in> set out"
  shows "f64_le (low r) (open_price r) \<and> f64_le (open_price r) (high r) \<and>
         f64_le (low r) (close r) \<and> f64_le (close r) (high r) \<and> f64_le (low r) (high r) \<and>
         (\<exists>t. timestamp r = Some t \<and>
              time_le (mk_time 9 15) (dt_time t) \<and> time_le (dt_time t) (mk_time 15 30) \<and>
              (\<exists>c\<in>set cs.
                 timestamp c = Val t \<and>
                 open_price c = Val (open_price r) \<and> high c = Val (high r) \<and>
                 low c = Val (low r) \<and> close c = Val (close r) \<and>
                 r = add_trade_date td (convert_row (Some t) c)))"
  using assms(1)
proof
  assume a: "transform td raw_data = Inr out \<and> cs = raw_data"
  then have tr: "transform td raw_data = Inr out" and cs: "cs = raw_data" by (rule conjunct1, rule conjunct2)
  show ?thesis unfolding cs by (rule transform_row[OF tr assms(2)])
next
  assume b: "transform_batch td data_dict = Inr out \<and> cs = concat (map snd data_dict)"
  then have tb: "transform_batch td data_dict = Inr out" by (rule conjunct1)
  from transform_batch_row[OF tb assms(2)] obtain candles frame where
    cand: "candles \<in> snd ` set data_dict" and tr: "transform td candles = Inr frame"
    and rf: "r \<in> set frame"
    by (elim exE conjE) (rule that; assumption)
  from cand b have sub: "set candles \<subseteq> set cs" by auto
  from transform_row[OF tr rf] obtain t c where
    ord: "f64_le (low r) (open_price r)" "f64_le (open_price r) (high r)"
      "f64_le (low r) (close r)" "f64_le (close r) (high r)" "f64_le (low r) (high r)"
    and ts: "timestamp r = Some t" "time_le (mk_time 9 15) (dt_time t)"
      "time_le (dt_time t) (mk_time 15 30)"
    and c: "c \<in> set candles"
    and src: "timestamp c = Val t" "open_price c = Val (open_price r)" "high c = Val (high r)"
      "low c = Val (low r)" "close c = Val (close r)"
      "r = add_trade_date td (convert_row (Some t) c)"
    by (elim conjE exE bexE) (rule that; assumption)
  from c sub have c': "c \<in> set cs" by (rule subsetD[rotated])
  have "\<exists>c\<in>set cs.
          timestamp c = Val t \<and>
          open_price c = Val (open_price r) \<and> high c = Val (high r) \<and>
          low c = Val (low r) \<and> close c = Val (close r) \<and>
          r = add_trade_date td (convert_row (Some t) c)"
    by (rule bexI[OF _ c']) (intro conjI src)
  with ts have
    "\<exists>t. timestamp r = Some t \<and>
        time_le (mk_time 9 15) (dt_time t) \<and> time_le (dt_time t) (mk_time 15 30) \<and>
        (\<exists>c\<in>set cs.
           timestamp c = Val t \<and>
           open_price c = Val (open_price r) \<and> high c = Val (high r) \<and>
           low c = Val (low r) \<and> close c = Val (close r) \<and>
           r = add_trade_date td (convert_row (Some t) c))"
    by (intro exI[of _ t] conjI)
  with ord show ?thesis by (intro conjI)
qed

theorem transformed_rows_valid_witness:
  "transform example_date example_raw_data =
     Inr [example_row ''X'' (example_ts 9 15) 100 105 99 101 10] \<and>
   (let r = example_row ''X'' (example_ts 9 15) 100 105 99 101 10 in
    f64_le (low r) (open_price r) \<and> f64_le (open_price r) (high r) \<and>
    f64_le (low r) (close r) \<and> f64_le (close r) (high r) \<and> f64_le (low r) (high r) \<and>
    (\<exists>t. timestamp r = Some t \<and>
         time_le (mk_time 9 15) (dt_time t) \<and> time_le (dt_time t) (mk_time 15 30) \<and>
         (\<exists>c\<in>set example_raw_data.
            timestamp c = Val t \<and>
            open_price c = Val (open_price r) \<and> high c = Val (high r) \<and>
            low c = Val (low r) \<and> close c = Val (close r) \<and>
            r = add_trade_date example_date (convert_row (Some t) c))))"
proof -
  have run: "transform example_date example_raw_data =
      Inr [example_row ''X'' (example_ts 9 15) 100 105 99 101 10]"
    by (simp add: example_defs transform_defs)
  have mem: "example_row ''X'' (example_ts 9 15) 100 105 99 101 10
          \<in> set [example_row ''X'' (example_ts 9 15) 100 105 99 101 10]"
    by simp
  have pre: "(transform example_date example_raw_data =
        Inr [example_row ''X'' (example_ts 9 15) 100 105 99 101 10] \<and>
      example_raw_data = example_raw_data) \<or>
     (transform_batch example_date [] =
        Inr [example_row ''X'' (example_ts 9 15) 100 105 99 101 10] \<and>
      example_raw_data = concat (map snd []))"
    using run by (intro disjI1 conjI refl)
  show ?thesis
    unfolding Let_def by (rule conjI[OF run transformed_rows_valid[OF pre mem]])
qed




lemma row_key_add_trade_date: "row_key (add_trade_date td x) = row_key x"
  by (simp add: row_key_def add_trade_date_def)




lemma distinct_keys_clean:
  "distinct (map row_key (validate_ohlc (filter_market_hours (dedupe frame))))"
  unfolding validate_ohlc_def filter_market_hours_def dedupe_def
  by (intro distinct_map_filter distinct_drop_duplicates_last)





lemma convert_row_to_records: "convert_row (timestamp r) (to_records r) = r"
  by (cases r) (simp add: convert_row_def to_records_def)

lemma to_datetime_to_records: "to_datetime (timestamp (to_records r)) = Inr (timestamp r)"
  by (cases "timestamp r") (simp_all add: to_records_def)

lemma convert_dtypes_to_records: "convert_dtypes (map to_records rs) = Inr rs"
  by (induction rs) (simp_all add: to_datetime_to_records convert_row_to_records)

lemma in_market_hours_add_trade_date: "in_market_hours (add_trade_date td r) = in_market_hours r"
  by (simp add: in_market_hours_def add_trade_date_def)

lemma valid_mask_add_trade_date: "valid_mask (add_trade_date td r) = valid_mask r"
  by (simp add: valid_mask_def add_trade_date_def)

lemma add_trade_date_same: "trade_date r = Some td \<Longrightarrow> add_trade_date td r = r"
  by (cases r) (simp add: add_trade_date_def)

lemma in_market_hours_timestamp: "in_market_hours r \<Longrightarrow> timestamp r \<noteq> None"
  by (cases "timestamp r") (simp_all add: in_market_hours_def)

lemma clean_fixed:
  assumes "\<forall>r\<in>set ys. in_market_hours r \<and> valid_mask r"
    and "distinct (map row_key ys)"
  shows "validate_ohlc (filter_market_hours (dedupe (validate_timestamps ys))) = ys"
proof -
  from assms(1) have "\<forall>r\<in>set ys. timestamp r \<noteq> None"
    using in_market_hours_timestamp by blast
  then have a: "validate_timestamps ys = ys"
    by (simp add: validate_timestamps_def)
  from assms(2) have b: "dedupe ys = ys"
    unfolding dedupe_def by (rule drop_duplicates_last_distinct)
  from assms(1) have c: "filter_market_hours ys = ys" and d: "validate_ohlc ys = ys"
    by (simp_all add: filter_market_hours_def validate_ohlc_def)
  show ?thesis by (simp only: a b c d)
qed

lemma transform_output_shape:
  assumes "transform td raw_data = Inr out"
  shows "(\<forall>r\<in>set out. in_market_hours r \<and> valid_mask r \<and> trade_date r = Some td) \<and>
         distinct (map row_key out)"
proof -
  from assms obtain frame where
    out: "out = map (add_trade_date td)
            (validate_ohlc (filter_market_hours (dedupe (validate_timestamps frame))))"
    using transform_Inr by blast
  have "distinct (map row_key (validate_ohlc (filter_market_hours (dedupe (validate_timestamps frame)))))"
    by (rule distinct_keys_clean)
  then have d: "distinct (map row_key out)"
    unfolding out by (simp add: comp_def row_key_add_trade_date)
  have "\<forall>r\<in>set out. in_market_hours r \<and> valid_mask r \<and> trade_date r = Some td"
    unfolding out
    by (auto simp: in_market_hours_def valid_mask_def
        validate_ohlc_def filter_market_hours_def add_trade_date_def)
  with d show ?thesis by (rule conjI[rotated])
qed

lemma retransform:
  assumes shape: "\<forall>r\<in>set out. in_market_hours r \<and> valid_mask r \<and> trade_date r = Some td"
    and d: "distinct (map row_key out)"
  shows "transform td (map to_records out) = Inr out"
proof (cases "out = []")
  case True
  then show ?thesis by (simp add: transform_def)
next
  case False
  from shape have "\<forall>r\<in>set out. in_market_hours r \<and> valid_mask r" by blast
  then have cl: "validate_ohlc (filter_market_hours (dedupe (validate_timestamps out))) = out"
    using d by (rule clean_fixed)
  from shape have "map (add_trade_date td) out = out"
    by (simp add: add_trade_date_same map_idI)
  with cl False show ?thesis
    by (simp add: transform_def convert_dtypes_to_records)
qed

lemma transform_symbols:
  assumes "transform td cs = Inr out" and "\<forall>c\<in>set cs. tradingsymbol c = Some s"
    and "r \<in> set out"
  shows "tradingsymbol r = Some s"
proof -
  from transform_row[OF assms(1) assms(3)] obtain t c where
    c: "c \<in> set cs" and r: "r = add_trade_date td (convert_row (Some t) c)"
    by (elim conjE exE bexE) (rule that; assumption)
  have "tradingsymbol r = tradingsymbol c"
    by (simp add: r add_trade_date_def convert_row_def)
  with assms(2) c show ?thesis by simp
qed

lemma transform_batch_shape:
  assumes "transform_batch td data_dict = Inr out" and "r \<in> set out"
  shows "in_market_hours r \<and> valid_mask r \<and> trade_date r = Some td"
proof -
  from transform_batch_row[OF assms] obtain candles frame where
    "transform td candles = Inr frame" and "r \<in> set frame"
    by (elim exE conjE) (rule that; assumption)
  then show ?thesis using transform_output_shape by blast
qed

lemma transform_batch_symbols:
  "transform_batch td data_dict = Inr out \<Longrightarrow>
   \<forall>(s, cs)\<in>set data_dict. \<forall>c\<in>set cs. tradingsymbol c = Some s \<Longrightarrow>
   r \<in> set out \<Longrightarrow> \<exists>s\<in>fst ` set data_dict. tradingsymbol r = Some s"
proof (induction data_dict arbitrary: out)
  case Nil
  then show ?case by simp
next
  case (Cons p rest)
  obtain symbol candles where p: "p = (symbol, candles)" by (cases p)
  from Cons.prems(1) p obtain frame dfs where
    f: "transform td candles = Inr frame" and d: "transform_batch td rest = Inr dfs"
    and out: "out = frame @ dfs"
    by (simp split: sum.splits)
  from Cons.prems(2) p have here: "\<forall>c\<in>set candles. tradingsymbol c = Some symbol"
    and there: "\<forall>(s, cs)\<in>set rest. \<forall>c\<in>set cs. tradingsymbol c = Some s"
    by simp_all
  from Cons.prems(3) out have "r \<in> set frame \<or> r \<in> set dfs" by simp
  then show ?case
  proof
    assume "r \<in> set frame"
    with f here have "tradingsymbol r = Some symbol" by (rule transform_symbols)
    with p show ?thesis by simp
  next
    assume "r \<in> set dfs"
    from Cons.IH[OF d there this] show ?thesis by auto
  qed
qed

lemma transform_batch_distinct:
  "transform_batch td data_dict = Inr out \<Longrightarrow> distinct (map fst data_dict) \<Longrightarrow>
   \<forall>(s, cs)\<in>set data_dict. \<forall>c\<in>set cs. tradingsymbol c = Some s \<Longrightarrow>
   distinct (map row_key out)"
proof (induction data_dict arbitrary: out)
  case Nil
  then show ?case by simp
next
  case (Cons p rest)
  obtain symbol candles where p: "p = (symbol, candles)" by (cases p)
  from Cons.prems(1) p obtain frame dfs where
    f: "transform td candles = Inr frame" and d: "transform_batch td rest = Inr dfs"
    and out: "out = frame @ dfs"
    by (simp split: sum.splits)
  from Cons.prems(3) p have here: "\<forall>c\<in>set candles. tradingsymbol c = Some symbol"
    and there: "\<forall>(s, cs)\<in>set rest. \<forall>c\<in>set cs. tradingsymbol c = Some s"
    by simp_all
  from Cons.prems(2) p have fresh: "symbol \<notin> fst ` set rest" and dr: "distinct (map fst rest)"
    by simp_all
  have d1: "distinct (map row_key frame)"
    using transform_output_shape[OF f] by (rule conjunct2)
  have d2: "distinct (map row_key dfs)"
    by (rule Cons.IH[OF d dr there])
  have disj: "row_key ` set frame \<inter> row_key ` set dfs = {}"
  proof (rule ccontr)
    assume "row_key ` set frame \<inter> row_key ` set dfs \<noteq> {}"
    then obtain k where "k \<in> row_key ` set frame" and "k \<in> row_key ` set dfs"
      by blast
    then obtain a b where a: "a \<in> set frame" and b: "b \<in> set dfs"
      and ab: "row_key a = row_key b" by (metis imageE)
    from f here a have sa: "tradingsymbol a = Some symbol" by (rule transform_symbols)
    from transform_batch_symbols[OF d there b] obtain s where
      s: "s \<in> fst ` set rest" and sb: "tradingsymbol b = Some s" by (rule bexE)
    from ab have "tradingsymbol a = tradingsymbol b" by (simp add: row_key_def)
    with sa sb have "s = symbol" by simp
    with s fresh show False by simp
  qed
  from d1 d2 disj show ?case unfolding out by simp
qed

text \<open>
  Claim C7, as the code has it.  \<open>transform\<close> removes duplicates within one list of
  candles; \<open>transform_batch\<close> concatenates the frames of the dictionary entries and
  removes nothing across them.  Two entries that both hold a candle of symbol X with
  the same timestamp give a dataset with that pair twice, and transforming its rows
  again drops one of the two rows.
\<close>

theorem transform_batch_duplicates_counterexample:
  "transform_batch example_date example_mixed_batch =
     Inr [example_row ''X'' (example_ts 10 0) 10 11 9 10.0 10,
          example_row ''X'' (example_ts 10 0) 10 11 9 10.5 10] \<and>
   \<not> distinct (map row_key [example_row ''X'' (example_ts 10 0) 10 11 9 10.0 10,
                            example_row ''X'' (example_ts 10 0) 10 11 9 10.5 10]) \<and>
   transform example_date
     (map to_records [example_row ''X'' (example_ts 10 0) 10 11 9 10.0 10,
                      example_row ''X'' (example_ts 10 0) 10 11 9 10.5 10]) =
     Inr [example_row ''X'' (example_ts 10 0) 10 11 9 10.5 10] \<and>
   [example_row ''X'' (example_ts 10 0) 10 11 9 10.5 10] \<noteq>
     [example_row ''X'' (example_ts 10 0) 10 11 9 10.0 10,
      example_row ''X'' (example_ts 10 0) 10 11 9 10.5 10]"
  by (simp add: example_mixed_batch_def example_defs transform_defs to_records_def)

text \<open>
  Claim C7, amended.  For every list of candles, the output of \<open>transform\<close> has at
  most one row for each (symbol, timestamp) pair, and transforming its rows again with
  the same trade date returns it unchanged.  The same holds for the output of
  \<open>transform_batch\<close> on a dictionary in which every candle carries the symbol it is
  filed under, which is how the extractor builds it.
\<close>

theorem transform_fixed_point:
  "(transform td raw_data = Inr out \<longrightarrow>
      transform td (map to_records out) = Inr out \<and> distinct (map row_key out)) \<and>
   (transform_batch td data_dict = Inr out' \<and> distinct (map fst data_dict) \<and>
    (\<forall>(s, cs)\<in>set data_dict. \<forall>c\<in>set cs. tradingsymbol c = Some s) \<longrightarrow>
      transform td (map to_records out') = Inr out' \<and> distinct (map row_key out'))"
proof (intro conjI impI)
  assume t: "transform td raw_data = Inr out"
  from transform_output_shape[OF t] show "distinct (map row_key out)" by (rule conjunct2)
  from transform_output_shape[OF t] show "transform td (map to_records out) = Inr out"
    by (elim conjE) (rule retransform)
next
  assume b: "transform_batch td data_dict = Inr out' \<and> distinct (map fst data_dict) \<and>
    (\<forall>(s, cs)\<in>set data_dict. \<forall>c\<in>set cs. tradingsymbol c = Some s)"
  then have tb: "transform_batch td data_dict = Inr out'"
    and dk: "distinct (map fst data_dict)"
    and own: "\<forall>(s, cs)\<in>set data_dict. \<forall>c\<in>set cs. tradingsymbol c = Some s"
    by simp_all
  from tb dk own show d: "distinct (map row_key out')" by (rule transform_batch_distinct)
  have "\<forall>r\<in>set out'. in_market_hours r \<and> valid_mask r \<and> trade_date r = Some td"
    by (rule ballI) (rule transform_batch_shape[OF tb])
  then show "transform td (map to_records out') = Inr out'" using d by (rule retransform)
qed

theorem transform_fixed_point_witness:
  "transform example_date example_duplicates =
     Inr [example_row ''X'' (example_ts 10 0) 10 11 9 10.5 10] \<and>
   transform_batch example_date example_batch =
     Inr [example_row ''X'' (example_ts 10 0) 10 11 9 10.5 10,
          example_row ''Y'' (example_ts 10 0) 20 21 19 20 5] \<and>
   distinct (map fst example_batch) \<and>
   list_all (\<lambda>(s, cs). list_all (\<lambda>c. tradingsymbol c = Some s) cs) example_batch \<and>
   transform example_date (map to_records [example_row ''X'' (example_ts 10 0) 10 11 9 10.5 10]) =
     Inr [example_row ''X'' (example_ts 10 0) 10 11 9 10.5 10] \<and>
   distinct (map row_key [example_row ''X'' (example_ts 10 0) 10 11 9 10.5 10]) \<and>
   transform example_date
     (map to_records [example_row ''X'' (example_ts 10 0) 10 11 9 10.5 10,
                      example_row ''Y'' (example_ts 10 0) 20 21 19 20 5]) =
     Inr [example_row ''X'' (example_ts 10 0) 10 11 9 10.5 10,
          example_row ''Y'' (example_ts 10 0) 20 21 19 20 5] \<and>
   distinct (map row_key [example_row ''X'' (example_ts 10 0) 10 11 9 10.5 10,
                          example_row ''Y'' (example_ts 10 0) 20 21 19 20 5])"
proof -
  have run: "transform example_date example_duplicates =
      Inr [example_row ''X'' (example_ts 10 0) 10 11 9 10.5 10]"
    by (simp add: example_duplicates_def example_defs transform_defs)
  have runb: "transform_batch example_date example_batch =
     Inr [example_row ''X'' (example_ts 10 0) 10 11 9 10.5 10,
          example_row ''Y'' (example_ts 10 0) 20 21 19 20 5]"
    by (simp add: example_batch_def example_duplicates_def example_defs transform_defs)
  have dk: "distinct (map fst example_batch)"
    by (simp add: example_batch_def)
  have own: "\<forall>(s, cs)\<in>set example_batch. \<forall>c\<in>set cs. tradingsymbol c = Some s"
    by (simp add: example_batch_def example_duplicates_def example_candle_def)
  note fp = transform_fixed_point[of example_date example_duplicates
      "[example_row ''X'' (example_ts 10 0) 10 11 9 10.5 10]" example_batch
      "[example_row ''X'' (example_ts 10 0) 10 11 9 10.5 10,
        example_row ''Y'' (example_ts 10 0) 20 21 19 20 5]"]
  from fp run have a:
    "transform example_date (map to_records [example_row ''X'' (example_ts 10 0) 10 11 9 10.5 10]) =
       Inr [example_row ''X'' (example_ts 10 0) 10 11 9 10.5 10] \<and>
     distinct (map row_key [example_row ''X'' (example_ts 10 0) 10 11 9 10.5 10])"
    by (elim conjE) (erule mp)
  from fp runb dk own have b:
    "transform example_date
       (map to_records [example_row ''X'' (example_ts 10 0) 10 11 9 10.5 10,
                        example_row ''Y'' (example_ts 10 0) 20 21 19 20 5]) =
       Inr [example_row ''X'' (example_ts 10 0) 10 11 9 10.5 10,
            example_row ''Y'' (example_ts 10 0) 20 21 19 20 5] \<and>
     distinct (map row_key [example_row ''X'' (example_ts 10 0) 10 11 9 10.5 10,
                            example_row ''Y'' (example_ts 10 0) 20 21 19 20 5])"
    by blast
  from own have own': "list_all (\<lambda>(s, cs). list_all (\<lambda>c. tradingsymbol c = Some s) cs) example_batch"
    by (simp add: list_all_iff case_prod_beta)
  from run runb dk own' a b show ?thesis by (intro conjI) (elim conjE; assumption)+
qed

text \<open>
  Claim C10.  The transformer checks the order of the prices and nothing about their
  sign: a candle inside the session whose four prices are negative and in the right
  order comes out with its prices unchanged, and a volume that is null or unreadable
  comes out as 0 instead of costing the row.
\<close>

theorem negative_prices_retained:
  assumes ts: "timestamp c = Val t"
    and hours: "time_le (mk_time 9 15) (dt_time t)" "time_le (dt_time t) (mk_time 15 30)"
    and prices: "open_price c = Val (Fin opn)" "high c = Val (Fin h)" "low c = Val (Fin l)"
      "close c = Val (Fin cl)"
    and negative: "h < 0"
    and ordered: "l \<le> opn" "opn \<le> h" "l \<le> cl" "cl \<le> h"
    and vol: "volume c = Null \<or> volume c = Unparseable s"
  shows "transform td [c] =
           Inr [\<lparr>timestamp = Some t, open_price = Fin opn, high = Fin h, low = Fin l,
                 close = Fin cl, volume = 0, tradingsymbol = tradingsymbol c,
                 instrument_token = instrument_token c, exchange = exchange c,
                 trade_date = Some td\<rparr>]"
proof -
  from vol have v: "volume_int64 (volume c) = 0" by (elim disjE) simp_all
  from ordered have lh: "l \<le> h" by simp
  have conv: "convert_dtypes [c] =
      Inr [\<lparr>timestamp = Some t, open_price = Fin opn, high = Fin h, low = Fin l,
            close = Fin cl, volume = 0, tradingsymbol = tradingsymbol c,
            instrument_token = instrument_token c, exchange = exchange c,
            trade_date = trade_date c\<rparr>]"
    by (simp add: ts prices v convert_row_def)
  show ?thesis
    using hours ordered lh
    by (simp del: convert_dtypes.simps add: transform_def conv validate_timestamps_def dedupe_def
        drop_duplicates_last_def filter_market_hours_def in_market_hours_def
        validate_ohlc_def valid_mask_def f64_ge_def add_trade_date_def MARKET_OPEN_def
        MARKET_CLOSE_def)
qed

theorem negative_prices_retained_witness:
  "timestamp example_negative = Val (example_ts 11 0) \<and>
   time_le (mk_time 9 15) (dt_time (example_ts 11 0)) \<and>
   time_le (dt_time (example_ts 11 0)) (mk_time 15 30) \<and>
   open_price example_negative = Val (Fin (- 10)) \<and> high example_negative = Val (Fin (- 5)) \<and>
   low example_negative = Val (Fin (- 12)) \<and> close example_negative = Val (Fin (- 7)) \<and>
   (- 5 :: rat) < 0 \<and> (- 12 :: rat) \<le> - 10 \<and> (- 10 :: rat) \<le> - 5 \<and>
   (- 12 :: rat) \<le> - 7 \<and> (- 7 :: rat) \<le> - 5 \<and>
   volume example_negative = Null \<and>
   transform example_date [example_negative] =
     Inr [example_row ''X'' (example_ts 11 0) (- 10) (- 5) (- 12) (- 7) 0]"
proof -
  have a: "timestamp example_negative = Val (example_ts 11 0)"
    "open_price example_negative = Val (Fin (- 10))" "high example_negative = Val (Fin (- 5))"
    "low example_negative = Val (Fin (- 12))" "close example_negative = Val (Fin (- 7))"
    and v: "volume example_negative = Null"
    by (simp_all add: example_negative_def example_candle_def)
  have b: "time_le (mk_time 9 15) (dt_time (example_ts 11 0))"
    "time_le (dt_time (example_ts 11 0)) (mk_time 15 30)"
    by (simp_all add: example_ts_def mk_time_def time_le_def)
  have n: "(- 5 :: rat) < 0" "(- 12 :: rat) \<le> - 10" "(- 10 :: rat) \<le> - 5"
    "(- 12 :: rat) \<le> - 7" "(- 7 :: rat) \<le> - 5"
    by simp_all
  from v have v': "volume example_negative = Null \<or> volume example_negative = Unparseable []"
    by (rule disjI1)
  have "transform example_date [example_negative] =
     Inr [example_row ''X'' (example_ts 11 0) (- 10) (- 5) (- 12) (- 7) 0]"
    using negative_prices_retained[OF a(1) b a(2-5) n v', of example_date]
    by (simp add: example_negative_def example_candle_def example_row_def example_date_def)
  with a b n v show ?thesis by simp
qed

section \<open>Properties of the extractor\<close>

lemma get_nifty500_instruments_None:
  "get_nifty500_instruments catalogue fetched None =
     get_nifty500_instruments catalogue other (Some (get_nifty500_symbols fetched))"
  by (cases "get_nse_instruments catalogue") (simp_all add: get_nifty500_instruments_def)

text \<open>
  Claim C9.  Without an explicit symbol list the resolver asks the index source.  When
  that request raises, the universe is the fixed list of 20 major symbols (so neither
  an exception nor an empty universe), and the instruments are resolved as if that list
  had been passed in; when the source answers, the universe is its \<open>Symbol\<close> column.
\<close>

theorem universe_fallback:
  "get_nifty500_symbols (Inl e) = get_fallback_symbols \<and>
   length get_fallback_symbols = 20 \<and> distinct get_fallback_symbols \<and>
   get_nifty500_instruments catalogue (Inl e) None =
     get_nifty500_instruments catalogue other (Some get_fallback_symbols) \<and>
   (map_of table ''Symbol'' = Some symbols \<longrightarrow>
      get_nifty500_symbols (Inr table) = symbols \<and>
      get_nifty500_instruments catalogue (Inr table) None =
        get_nifty500_instruments catalogue other (Some symbols))"
proof (intro conjI impI)
  show a: "get_nifty500_symbols (Inl e) = get_fallback_symbols"
    by (simp add: get_nifty500_symbols_def)
  show "length get_fallback_symbols = 20"
    by (simp add: get_fallback_symbols_def)
  show "distinct get_fallback_symbols"
    by (simp add: get_fallback_symbols_def)
  show "get_nifty500_instruments catalogue (Inl e) None =
     get_nifty500_instruments catalogue other (Some get_fallback_symbols)"
    by (simp only: get_nifty500_instruments_None[of catalogue "Inl e" other] a)
next
  assume s: "map_of table ''Symbol'' = Some symbols"
  then show b: "get_nifty500_symbols (Inr table) = symbols"
    by (simp add: get_nifty500_symbols_def)
  show "get_nifty500_instruments catalogue (Inr table) None =
        get_nifty500_instruments catalogue other (Some symbols)"
    by (simp only: get_nifty500_instruments_None[of catalogue "Inr table" other] b)
qed

theorem universe_fallback_witness:
  "map_of [(''Symbol'', [''INFY'', ''TCS''])] ''Symbol'' = Some [''INFY'', ''TCS''] \<and>
   get_nifty500_symbols (Inl (ConnectionError ''nse'')) = get_fallback_symbols \<and>
   get_nifty500_symbols (Inr [(''Symbol'', [''INFY'', ''TCS''])]) = [''INFY'', ''TCS'']"
proof -
  have m: "map_of [(''Symbol'', [''INFY'', ''TCS''])] ''Symbol'' = Some [''INFY'', ''TCS'']"
    by simp
  from universe_fallback[of "ConnectionError ''nse''" "Inl (ConnectionError ''nse'')"
      "Inl (ConnectionError ''nse'')" "[(''Symbol'', [''INFY'', ''TCS''])]" "[''INFY'', ''TCS'']"] m
  show ?thesis by blast
qed























section \<open>Properties of the store\<close>

lemma path_str_append: "path_str (p @ q) = path_str p @ path_str q"
  by (simp add: path_str_def)

lemma write_layer_path:
  assumes "write_layer self layer frame underlying td overwrite filename fs = (Inr p, fs')"
    and "\<not> df_empty frame"
  shows "p = path_str (base_path self) @ ''/fno/'' @ layer @ ''/underlying='' @ underlying @
               ''/date='' @ strftime_Ymd (dt_date td) @ ''/'' @ filename"
proof -
  have str: "path_str (partition_path_of self layer underlying td @ [filename]) =
      path_str (base_path self) @ ''/fno/'' @ layer @ ''/underlying='' @ underlying @
               ''/date='' @ strftime_Ymd (dt_date td) @ ''/'' @ filename"
    by (simp add: partition_path_of_def path_str_def)
  from assms have "p = path_str (partition_path_of self layer underlying td @ [filename])"
    by (auto simp: write_layer_def Let_def split: prod.splits option.splits if_splits sum.splits)
  with str show ?thesis by simp
qed

lemma write_layer_empty:
  "df_empty frame \<Longrightarrow>
     write_layer self layer frame underlying td overwrite filename fs = (Inr [], fs)"
  by (simp add: write_layer_def)

lemma read_all_Nil: "es = [] \<Longrightarrow> read_all es = Inr []"
  by simp

lemma read_partition_missing:
  "\<not> path_exists fs (partition_path_of self layer underlying td) \<or>
   glob_parquet fs (partition_path_of self layer underlying td) = [] \<Longrightarrow>
     read_partition self layer underlying td fs = Inr DataFrame"
  by (auto simp: read_partition_def Let_def)

lemma example_partition:
  "partition_path_of example_loader ''raw'' ''NIFTY'' example_date =
     [''opt'', ''airflow'', ''data'', ''lake'', ''fno'', ''raw'', ''underlying=NIFTY'',
      ''date=2025-01-06'']"
  by (simp add: partition_path_of_def example_loader_def example_date_def strftime_Ymd_def
      zero_pad_def digit_char_def str_nat.simps)

lemma example_write:
  "fst (write_raw example_loader example_frame ''NIFTY'' example_date True []) =
     Inr ''/opt/airflow/data/lake/fno/raw/underlying=NIFTY/date=2025-01-06/data.parquet''"
  by (simp add: write_raw_def write_layer_def example_partition df_empty_def example_frame_def
      path_exists_def write_table_def path_str_def Let_def)

text \<open>
  Claim C6.  Writing an empty frame returns the empty path and leaves the file system as
  it was, for every layer, scope key and date, so no partition directory appears.
  Reading a partition whose directory is absent, or holds no parquet file, returns the
  empty frame and raises nothing.
\<close>

theorem empty_write_and_missing_read:
  "(df_empty frame \<longrightarrow>
      write_layer self layer frame underlying td overwrite filename fs = (Inr [], fs) \<and>
      write_raw self frame underlying td overwrite fs = (Inr [], fs) \<and>
      write_processed self frame underlying td overwrite fs = (Inr [], fs) \<and>
      write_analytics self frame underlying td filename overwrite fs = (Inr [], fs)) \<and>
   (\<not> path_exists fs (partition_path_of self layer underlying td) \<or>
    glob_parquet fs (partition_path_of self layer underlying td) = [] \<longrightarrow>
      read_partition self layer underlying td fs = Inr DataFrame) \<and>
   df_empty DataFrame"
proof (intro conjI impI)
  assume e: "df_empty frame"
  then show "write_layer self layer frame underlying td overwrite filename fs = (Inr [], fs)"
    by (rule write_layer_empty)
  from e show "write_raw self frame underlying td overwrite fs = (Inr [], fs)"
    unfolding write_raw_def by (rule write_layer_empty)
  from e show "write_processed self frame underlying td overwrite fs = (Inr [], fs)"
    unfolding write_processed_def by (rule write_layer_empty)
  from e show "write_analytics self frame underlying td filename overwrite fs = (Inr [], fs)"
    unfolding write_analytics_def by (rule write_layer_empty)
next
  assume "\<not> path_exists fs (partition_path_of self layer underlying td) \<or>
    glob_parquet fs (partition_path_of self layer underlying td) = []"
  then show "read_partition self layer underlying td fs = Inr DataFrame"
    by (rule read_partition_missing)
next
  show "df_empty DataFrame" by (simp add: df_empty_def DataFrame_def)
qed

theorem empty_write_and_missing_read_witness:
  "df_empty DataFrame \<and>
   write_raw example_loader DataFrame ''NIFTY'' example_date True [] = (Inr [], []) \<and>
   \<not> path_exists [] (partition_path_of example_loader ''raw'' ''NIFTY'' example_date) \<and>
   read_partition example_loader ''raw'' ''NIFTY'' example_date [] = Inr DataFrame \<and>
   path_exists example_fs (partition_path_of example_loader ''raw'' ''NIFTY'' example_date) \<and>
   glob_parquet example_fs (partition_path_of example_loader ''raw'' ''NIFTY'' example_date) = [] \<and>
   read_partition example_loader ''raw'' ''NIFTY'' example_date example_fs = Inr DataFrame"
proof -
  note t = empty_write_and_missing_read
  have e: "df_empty DataFrame" by (simp add: df_empty_def DataFrame_def)
  have a: "\<not> path_exists [] (partition_path_of example_loader ''raw'' ''NIFTY'' example_date)"
    by (simp add: example_partition path_exists_def)
  have b: "path_exists example_fs (partition_path_of example_loader ''raw'' ''NIFTY'' example_date)"
    by (simp add: example_partition path_exists_def example_fs_def)
  have c: "glob_parquet example_fs (partition_path_of example_loader ''raw'' ''NIFTY'' example_date) = []"
    by (simp add: example_partition glob_parquet_def example_fs_def endswith_def)
  from e t[of DataFrame example_loader "''raw''" "''NIFTY''" example_date True "''data.parquet''" "[]"]
  have w: "write_raw example_loader DataFrame ''NIFTY'' example_date True [] = (Inr [], [])"
    by blast
  from a t[of DataFrame example_loader "''raw''" "''NIFTY''" example_date True "''data.parquet''" "[]"]
  have r1: "read_partition example_loader ''raw'' ''NIFTY'' example_date [] = Inr DataFrame"
    by blast
  from c t[of DataFrame example_loader "''raw''" "''NIFTY''" example_date True "''data.parquet''" example_fs]
  have r2: "read_partition example_loader ''raw'' ''NIFTY'' example_date example_fs = Inr DataFrame"
    by blast
  from e w a r1 b c r2 show ?thesis by (intro conjI)
qed

text \<open>
  Claim C4, on the code.  A write of the derivatives tree that succeeds returns the path
  \<open>base/fno/layer/underlying=scope/date=YYYY-MM-DD/filename\<close>.  The class has no write
  operation for the equity tree: \<open>write_equity_raw\<close> and \<open>write_equity_processed\<close>
  are not among its attributes, and the load task of the equity pipeline, which calls
  the first, ends with \<open>AttributeError\<close> for every successful transform result.
\<close>

theorem store_write_paths:
  "(write_layer self layer frame underlying td overwrite filename fs = (Inr p, fs') \<and>
    \<not> df_empty frame \<longrightarrow>
      p = path_str (base_path self) @ ''/fno/'' @ layer @ ''/underlying='' @ underlying @
            ''/date='' @ strftime_Ymd (dt_date td) @ ''/'' @ filename) \<and>
   ''write_equity_raw'' \<notin> set ParquetLoader_attributes \<and>
   ''write_equity_processed'' \<notin> set ParquetLoader_attributes \<and>
   (res_status transform_result = ''success'' \<longrightarrow>
      nifty500_load_raw_data self transform_result fs = (Inl (AttributeError ''write_equity_raw''), fs))"
proof (intro conjI impI)
  assume "write_layer self layer frame underlying td overwrite filename fs = (Inr p, fs') \<and>
    \<not> df_empty frame"
  then show "p = path_str (base_path self) @ ''/fno/'' @ layer @ ''/underlying='' @ underlying @
            ''/date='' @ strftime_Ymd (dt_date td) @ ''/'' @ filename"
    by (elim conjE) (rule write_layer_path)
next
  show "''write_equity_raw'' \<notin> set ParquetLoader_attributes"
    by (simp add: ParquetLoader_attributes_def)
  show "''write_equity_processed'' \<notin> set ParquetLoader_attributes"
    by (simp add: ParquetLoader_attributes_def)
next
  assume "res_status transform_result = ''success''"
  then show "nifty500_load_raw_data self transform_result fs =
      (Inl (AttributeError ''write_equity_raw''), fs)"
    by (simp add: nifty500_load_raw_data_def getattr_ParquetLoader_def ParquetLoader_attributes_def)
qed

theorem store_write_paths_witness:
  "\<not> df_empty example_frame \<and>
   fst (write_raw example_loader example_frame ''NIFTY'' example_date True []) =
     Inr ''/opt/airflow/data/lake/fno/raw/underlying=NIFTY/date=2025-01-06/data.parquet'' \<and>
   ''/opt/airflow/data/lake/fno/raw/underlying=NIFTY/date=2025-01-06/data.parquet'' =
     path_str (base_path example_loader) @ ''/fno/'' @ ''raw'' @ ''/underlying='' @ ''NIFTY'' @
       ''/date='' @ strftime_Ymd (dt_date example_date) @ ''/'' @ ''data.parquet'' \<and>
   res_status example_transform_result = ''success'' \<and>
   nifty500_load_raw_data example_loader example_transform_result [] =
     (Inl (AttributeError ''write_equity_raw''), [])"
proof -
  let ?X = "write_layer example_loader ''raw'' example_frame ''NIFTY'' example_date True
              ''data.parquet'' []"
  have ne: "\<not> df_empty example_frame"
    by (simp add: df_empty_def example_frame_def)
  have w: "fst (write_raw example_loader example_frame ''NIFTY'' example_date True []) =
     Inr ''/opt/airflow/data/lake/fno/raw/underlying=NIFTY/date=2025-01-06/data.parquet''"
    by (rule example_write)
  then have eq: "?X =
     (Inr ''/opt/airflow/data/lake/fno/raw/underlying=NIFTY/date=2025-01-06/data.parquet'', snd ?X)"
    by (simp add: write_raw_def prod_eq_iff)
  have st: "res_status example_transform_result = ''success''"
    by (simp add: example_transform_result_def)
  note t = store_write_paths[of example_loader "''raw''" example_frame "''NIFTY''" example_date
      True "''data.parquet''" "[]"
      "''/opt/airflow/data/lake/fno/raw/underlying=NIFTY/date=2025-01-06/data.parquet''"
      "snd ?X" example_transform_result]
  from t eq ne have p:
    "''/opt/airflow/data/lake/fno/raw/underlying=NIFTY/date=2025-01-06/data.parquet'' =
     path_str (base_path example_loader) @ ''/fno/'' @ ''raw'' @ ''/underlying='' @ ''NIFTY'' @
       ''/date='' @ strftime_Ymd (dt_date example_date) @ ''/'' @ ''data.parquet''"
    by blast
  from t st have l: "nifty500_load_raw_data example_loader example_transform_result [] =
     (Inl (AttributeError ''write_equity_raw''), [])"
    by blast
  from ne w p st l show ?thesis by (intro conjI)
qed

section \<open>Properties of the quality gate\<close>

lemma count_zero: "(\<forall>x\<in>set xs. \<not> P x) \<Longrightarrow> count P xs = 0"
  by (simp add: count_def)

lemma duplicated_first_none:
  "count (\<lambda>d. d) (duplicated_first seen ks) = 0 \<longleftrightarrow> distinct ks \<and> set ks \<inter> set seen = {}"
proof (induction ks arbitrary: seen)
  case Nil
  show ?case by (simp add: count_def)
next
  case (Cons k ks)
  have "count (\<lambda>d. d) (duplicated_first seen (k # ks)) = 0 \<longleftrightarrow>
          k \<notin> set seen \<and> count (\<lambda>d. d) (duplicated_first (k # seen) ks) = 0"
    by (simp add: count_def)
  also have "\<dots> \<longleftrightarrow> k \<notin> set seen \<and> distinct ks \<and> set ks \<inter> set (k # seen) = {}"
    by (simp only: Cons.IH)
  also have "\<dots> \<longleftrightarrow> distinct (k # ks) \<and> set (k # ks) \<inter> set seen = {}"
    by auto
  finally show ?case .
qed

lemma f64_positive: "f64_lt (Fin 0) v \<Longrightarrow> \<not> f64_lt v (Fin 0) \<and> \<not> f64_eq v (Fin 0)"
  by (cases v) (simp_all add: f64_eq_def)

lemma f64_le_not_lt: "f64_le l h \<Longrightarrow> \<not> f64_lt h l"
  by (cases l; cases h) simp_all

lemma passed_iff_no_errors:
  "fst (run_all_checks self) = (fst (snd (run_all_checks self)) = [])"
  by (simp add: run_all_checks_def Let_def)

lemma check_not_empty_cong:
  "df s = df s' \<Longrightarrow> errors s = errors s' \<Longrightarrow>
     df (check_not_empty s) = df (check_not_empty s') \<and>
     errors (check_not_empty s) = errors (check_not_empty s')"
  by (simp add: check_not_empty_def)

lemma check_no_null_timestamps_cong:
  "df s = df s' \<Longrightarrow> errors s = errors s' \<Longrightarrow>
     df (check_no_null_timestamps s) = df (check_no_null_timestamps s') \<and>
     errors (check_no_null_timestamps s) = errors (check_no_null_timestamps s')"
  by (simp add: check_no_null_timestamps_def Let_def)

lemma check_unique_symbol_timestamps_cong:
  "df s = df s' \<Longrightarrow> errors s = errors s' \<Longrightarrow>
     df (check_unique_symbol_timestamps s) = df (check_unique_symbol_timestamps s') \<and>
     errors (check_unique_symbol_timestamps s) = errors (check_unique_symbol_timestamps s')"
  by (simp add: check_unique_symbol_timestamps_def Let_def)

lemma check_market_hours_cong:
  "df s = df s' \<Longrightarrow> errors s = errors s' \<Longrightarrow>
     df (check_market_hours s) = df (check_market_hours s') \<and>
     errors (check_market_hours s) = errors (check_market_hours s')"
  by (simp add: check_market_hours_def Let_def)

lemma check_price_col_cong:
  "df s = df s' \<Longrightarrow> errors s = errors s' \<Longrightarrow>
     df (check_price_col c s) = df (check_price_col c s') \<and>
     errors (check_price_col c s) = errors (check_price_col c s')"
  by (simp add: check_price_col_def Let_def)

lemma fold_check_price_col_cong:
  "df s = df s' \<Longrightarrow> errors s = errors s' \<Longrightarrow>
     df (fold check_price_col cs s) = df (fold check_price_col cs s') \<and>
     errors (fold check_price_col cs s) = errors (fold check_price_col cs s')"
proof (induction cs arbitrary: s s')
  case Nil
  then show ?case by simp
next
  case (Cons c cs)
  from check_price_col_cong[OF Cons.prems, of c]
  have "df (check_price_col c s) = df (check_price_col c s')"
    and "errors (check_price_col c s) = errors (check_price_col c s')" by simp_all
  from Cons.IH[OF this] show ?case by simp
qed

lemma check_price_validity_cong:
  assumes "df s = df s'" and "errors s = errors s'"
  shows "df (check_price_validity s) = df (check_price_validity s') \<and>
         errors (check_price_validity s) = errors (check_price_validity s')"
proof -
  from fold_check_price_col_cong[OF assms, of price_cols]
  have a: "df (fold check_price_col price_cols s) = df (fold check_price_col price_cols s')"
    and b: "errors (fold check_price_col price_cols s) = errors (fold check_price_col price_cols s')"
    by simp_all
  show ?thesis
    by (simp add: check_price_validity_def Let_def a b)
qed

lemma run_all_checks_cong:
  assumes "df s = df s'" and "errors s = errors s'"
  shows "fst (run_all_checks s) = fst (run_all_checks s') \<and>
         fst (snd (run_all_checks s)) = fst (snd (run_all_checks s'))"
proof -
  note c1 = check_not_empty_cong[OF assms]
  note c2 = check_no_null_timestamps_cong[OF c1[THEN conjunct1] c1[THEN conjunct2]]
  note c3 = check_unique_symbol_timestamps_cong[OF c2[THEN conjunct1] c2[THEN conjunct2]]
  note c4 = check_market_hours_cong[OF c3[THEN conjunct1] c3[THEN conjunct2]]
  note c5 = check_price_validity_cong[OF c4[THEN conjunct1] c4[THEN conjunct2]]
  from c5 show ?thesis by (simp add: run_all_checks_def Let_def)
qed

lemma check_price_col_clean:
  "\<forall>r\<in>set (rows (df s)). \<not> f64_lt (snd c r) (Fin 0) \<and> \<not> f64_eq (snd c r) (Fin 0) \<Longrightarrow>
     check_price_col c s = s"
  by (simp add: check_price_col_def Let_def count_zero)

lemma duplicates_only:
  assumes ne: "\<not> df_empty frame"
    and cols: "''timestamp'' \<in> set (columns frame)" "''tradingsymbol'' \<in> set (columns frame)"
    and ok: "\<forall>r\<in>set (rows frame).
        timestamp r \<noteq> None \<and> \<not> outside_hours r \<and>
        f64_lt (Fin 0) (open_price r) \<and> f64_lt (Fin 0) (high r) \<and>
        f64_lt (Fin 0) (low r) \<and> f64_lt (Fin 0) (close r) \<and> f64_le (low r) (high r)"
    and dup: "\<not> distinct (map row_key (rows frame))"
  shows "run_all_checks (DataQualityChecker frame) =
           (True, [],
            [''Found '' @
             str_nat (count (\<lambda>d. d) (duplicated_first [] (map row_key (rows frame)))) @
             '' duplicate (symbol, timestamp) pairs'']) \<and>
         0 < count (\<lambda>d. d) (duplicated_first [] (map row_key (rows frame)))"
proof -
  let ?n = "count (\<lambda>d. d) (duplicated_first [] (map row_key (rows frame)))"
  define msg where "msg = ''Found '' @ str_nat ?n @ '' duplicate (symbol, timestamp) pairs''"
  define s0 where "s0 = DataQualityChecker frame"
  define s1 where "s1 = s0\<lparr>warnings := [msg]\<rparr>"
  have d0: "df s0 = frame" "errors s0 = []" "warnings s0 = []"
    by (simp_all add: s0_def DataQualityChecker_def)
  have d1: "df s1 = frame" "errors s1 = []" "warnings s1 = [msg]"
    by (simp_all add: s1_def d0)
  from dup have n: "0 < ?n"
    using duplicated_first_none[of "[]" "map row_key (rows frame)"] by simp
  have c1: "check_not_empty s0 = s0"
    using ne by (simp add: check_not_empty_def d0)
  have "count (\<lambda>r. timestamp r = None) (rows frame) = 0"
    using ok by (simp add: count_zero)
  then have c2: "check_no_null_timestamps s0 = s0"
    using cols by (simp add: check_no_null_timestamps_def d0 Let_def)
  have c3: "check_unique_symbol_timestamps s0 = s1"
    using cols n by (simp add: check_unique_symbol_timestamps_def d0 Let_def s1_def msg_def)
  have "count outside_hours (rows frame) = 0"
    using ok by (simp add: count_zero)
  then have c4: "check_market_hours s1 = s1"
    by (simp add: check_market_hours_def d1 Let_def)
  have clean: "\<forall>r\<in>set (rows (df s1)).
      \<not> f64_lt (snd c r) (Fin 0) \<and> \<not> f64_eq (snd c r) (Fin 0)"
    if "c \<in> set price_cols" for c
    using that ok f64_positive by (auto simp: price_cols_def d1)
  have p: "check_price_col c s1 = s1" if "c \<in> set price_cols" for c
    by (rule check_price_col_clean) (rule clean[OF that])
  have f: "fold check_price_col price_cols s1 = s1"
    by (simp add: price_cols_def p)
  have "count (\<lambda>r. f64_lt (high r) (low r)) (rows frame) = 0"
    using ok f64_le_not_lt by (simp add: count_zero)
  then have c5: "check_price_validity s1 = s1"
    by (simp add: check_price_validity_def f d1 Let_def)
  have "run_all_checks s0 = (True, [], [msg])"
    by (simp add: run_all_checks_def Let_def c1 c2 c3 c4 c5 d1)
  then have "run_all_checks (DataQualityChecker frame) =
      (True, [], [''Found '' @ str_nat ?n @ '' duplicate (symbol, timestamp) pairs''])"
    by (simp only: s0_def msg_def)
  with n show ?thesis by (rule conjI[rotated])
qed

text \<open>
  Claim C5.  \<open>run_all_checks\<close> returns passed = true exactly when the error list it
  returns is empty, and the warnings a checker holds have no influence on passed.  A
  frame that is not empty, has its timestamp and symbol columns, no null timestamp,
  every row inside the session, positive prices and high not below low, but some
  (symbol, timestamp) pair more than once, passes with no error and with the one
  warning that counts the duplicates.
\<close>

theorem gate_passes_iff_no_errors:
  "fst (run_all_checks self) = (fst (snd (run_all_checks self)) = []) \<and>
   fst (run_all_checks (self\<lparr>warnings := ws\<rparr>)) = fst (run_all_checks self) \<and>
   (\<not> df_empty frame \<and> ''timestamp'' \<in> set (columns frame) \<and>
    ''tradingsymbol'' \<in> set (columns frame) \<and>
    (\<forall>r\<in>set (rows frame).
        timestamp r \<noteq> None \<and> \<not> outside_hours r \<and>
        f64_lt (Fin 0) (open_price r) \<and> f64_lt (Fin 0) (high r) \<and>
        f64_lt (Fin 0) (low r) \<and> f64_lt (Fin 0) (close r) \<and> f64_le (low r) (high r)) \<and>
    \<not> distinct (map row_key (rows frame)) \<longrightarrow>
      run_all_checks (DataQualityChecker frame) =
        (True, [],
         [''Found '' @
          str_nat (count (\<lambda>d. d) (duplicated_first [] (map row_key (rows frame)))) @
          '' duplicate (symbol, timestamp) pairs'']) \<and>
      0 < count (\<lambda>d. d) (duplicated_first [] (map row_key (rows frame))))"
proof (intro conjI impI)
  show "fst (run_all_checks self) = (fst (snd (run_all_checks self)) = [])"
    by (rule passed_iff_no_errors)
  have "df (self\<lparr>warnings := ws\<rparr>) = df self" and "errors (self\<lparr>warnings := ws\<rparr>) = errors self"
    by simp_all
  then show "fst (run_all_checks (self\<lparr>warnings := ws\<rparr>)) = fst (run_all_checks self)"
    by (rule run_all_checks_cong[THEN conjunct1])
next
  assume h: "\<not> df_empty frame \<and> ''timestamp'' \<in> set (columns frame) \<and>
    ''tradingsymbol'' \<in> set (columns frame) \<and>
    (\<forall>r\<in>set (rows frame).
        timestamp r \<noteq> None \<and> \<not> outside_hours r \<and>
        f64_lt (Fin 0) (open_price r) \<and> f64_lt (Fin 0) (high r) \<and>
        f64_lt (Fin 0) (low r) \<and> f64_lt (Fin 0) (close r) \<and> f64_le (low r) (high r)) \<and>
    \<not> distinct (map row_key (rows frame))"
  then have r: "run_all_checks (DataQualityChecker frame) =
        (True, [],
         [''Found '' @
          str_nat (count (\<lambda>d. d) (duplicated_first [] (map row_key (rows frame)))) @
          '' duplicate (symbol, timestamp) pairs'']) \<and>
      0 < count (\<lambda>d. d) (duplicated_first [] (map row_key (rows frame)))"
    by (elim conjE) (rule duplicates_only)
  from r show "run_all_checks (DataQualityChecker frame) =
        (True, [],
         [''Found '' @
          str_nat (count (\<lambda>d. d) (duplicated_first [] (map row_key (rows frame)))) @
          '' duplicate (symbol, timestamp) pairs''])" by (rule conjunct1)
  from r show "0 < count (\<lambda>d. d) (duplicated_first [] (map row_key (rows frame)))"
    by (rule conjunct2)
qed

theorem gate_passes_iff_no_errors_witness:
  "\<not> df_empty example_duplicate_frame \<and>
   \<not> distinct (map row_key (rows example_duplicate_frame)) \<and>
   list_all (\<lambda>r. timestamp r \<noteq> None \<and> \<not> outside_hours r \<and>
        f64_lt (Fin 0) (open_price r) \<and> f64_lt (Fin 0) (high r) \<and>
        f64_lt (Fin 0) (low r) \<and> f64_lt (Fin 0) (close r) \<and> f64_le (low r) (high r))
     (rows example_duplicate_frame) \<and>
   run_all_checks (DataQualityChecker example_duplicate_frame) =
     (True, [], [''Found 1 duplicate (symbol, timestamp) pairs''])"
proof -
  have a: "\<not> df_empty example_duplicate_frame"
    by (simp add: df_empty_def example_duplicate_frame_def)
  have b: "''timestamp'' \<in> set (columns example_duplicate_frame)"
    "''tradingsymbol'' \<in> set (columns example_duplicate_frame)"
    by (simp_all add: example_duplicate_frame_def)
  have c: "\<forall>r\<in>set (rows example_duplicate_frame).
        timestamp r \<noteq> None \<and> \<not> outside_hours r \<and>
        f64_lt (Fin 0) (open_price r) \<and> f64_lt (Fin 0) (high r) \<and>
        f64_lt (Fin 0) (low r) \<and> f64_lt (Fin 0) (close r) \<and> f64_le (low r) (high r)"
    by (simp add: example_duplicate_frame_def example_row_def example_ts_def outside_hours_def
        time_lt_def time_le_def mk_time_def)
  have d: "\<not> distinct (map row_key (rows example_duplicate_frame))"
    by (simp add: example_duplicate_frame_def)
  have n: "count (\<lambda>d. d) (duplicated_first [] (map row_key (rows example_duplicate_frame))) = 1"
    by (simp add: example_duplicate_frame_def count_def)
  have s: "''Found '' @ str_nat 1 @ '' duplicate (symbol, timestamp) pairs'' =
      ''Found 1 duplicate (symbol, timestamp) pairs''"
    by (simp add: str_nat.simps digit_char_def)
  from a b c d gate_passes_iff_no_errors[of _ _ example_duplicate_frame]
  have "run_all_checks (DataQualityChecker example_duplicate_frame) =
     (True, [], [''Found '' @
          str_nat (count (\<lambda>d. d) (duplicated_first [] (map row_key (rows example_duplicate_frame)))) @
          '' duplicate (symbol, timestamp) pairs''])"
    by blast
  then have r: "run_all_checks (DataQualityChecker example_duplicate_frame) =
     (True, [], [''Found 1 duplicate (symbol, timestamp) pairs''])"
    by (simp only: n s)
  from c have c': "list_all (\<lambda>r. timestamp r \<noteq> None \<and> \<not> outside_hours r \<and>
        f64_lt (Fin 0) (open_price r) \<and> f64_lt (Fin 0) (high r) \<and>
        f64_lt (Fin 0) (low r) \<and> f64_lt (Fin 0) (close r) \<and> f64_le (low r) (high r))
     (rows example_duplicate_frame)"
    by (simp only: list_all_iff)
  from a d c' r show ?thesis by (intro conjI)
qed

end
